theory Spec2Isabelle
  imports Main "HOL-Library.Word"
begin

unbundle bit_operations_syntax

section \<open>Machine integers and undefined behaviour\<close>

type_synonym u32 = "32 word"
type_synonym u8 = "8 word"

text \<open>
  All counters, sizes, offsets and addresses of the firmware are \<open>uint32_t\<close>: addition,
  subtraction and multiplication wrap modulo \<open>2^32\<close>, which is what the operations of
  \<^typ>\<open>32 word\<close> do.  Unsigned division and remainder by zero are undefined behaviour
  in C; the model makes that outcome a value.
\<close>

datatype fault = DivisionByZero

definition bindE :: "fault + 'a \<Rightarrow> ('a \<Rightarrow> fault + 'b) \<Rightarrow> fault + 'b" where
  "bindE m f = (case m of Inl e \<Rightarrow> Inl e | Inr x \<Rightarrow> f x)"

definition umod :: "u32 \<Rightarrow> u32 \<Rightarrow> fault + u32" where
  "umod a b = (if b = 0 then Inl DivisionByZero else Inr (a mod b))"

definition udiv :: "u32 \<Rightarrow> u32 \<Rightarrow> fault + u32" where
  "udiv a b = (if b = 0 then Inl DivisionByZero else Inr (a div b))"

section \<open>Pattern generators (address_tests.c)\<close>

text \<open>
  \<open>GenerateAddressPattern\<close> reads the global \<open>testCycleCounter\<close>; the model takes its
  value as the first argument \<open>cycle\<close>.
\<close>

definition GenerateAddressPattern :: "u32 \<Rightarrow> u32 \<Rightarrow> u32" where
  "GenerateAddressPattern cycle address =
     address XOR (cycle * 0x1234567B) XOR 0xF00F0FF0"

text \<open>
  The two values of butterfly pair \<open>i\<close>, lines 149 and 150 of
  \<open>RunEnhancedButterflyTest\<close>; \<open>cycle\<close> is the value of \<open>testCycleCounter\<close>.
\<close>

definition pattern1 :: "u32 \<Rightarrow> u32 \<Rightarrow> u32" where
  "pattern1 cycle i = 0xAAAAAAAA XOR (i * 0x11111111) XOR cycle"

definition pattern2 :: "u32 \<Rightarrow> u32 \<Rightarrow> u32" where
  "pattern2 cycle i = 0x55555555 XOR (i * 0x11111111) XOR cycle"

section \<open>Test configuration (memory_test.h, memory_test_configuration.c)\<close>

definition FLASH_START_ADDR :: u32 where "FLASH_START_ADDR = 0x08000000"
definition FLASH_SIZE :: u32 where "FLASH_SIZE = 0x80000"
definition SRAM1_START_ADDR :: u32 where "SRAM1_START_ADDR = 0x20000000"
definition SRAM1_SIZE :: u32 where "SRAM1_SIZE = 0x18000"
definition SRAM2_START_ADDR :: u32 where "SRAM2_START_ADDR = 0x20018000"
definition SRAM2_SIZE :: u32 where "SRAM2_SIZE = 0x8000"
definition CCM_SRAM_START_ADDR :: u32 where "CCM_SRAM_START_ADDR = 0x10000000"
definition CCM_SRAM_SIZE :: u32 where "CCM_SRAM_SIZE = 0x8000"

record MemoryTestConfig =
  flashTestSize :: u32
  sram1TestSize :: u32
  sram2TestSize :: u32
  ccmTestSize :: u32
  flashTestOffset :: u32
  sram1TestOffset :: u32
  sram2TestOffset :: u32
  ccmTestOffset :: u32
  addressTestStride :: u32
  numButterflyPairs :: u32
  reportIntervalMs :: u32
  advancedTestInterval :: u32
  rotateStartingOffsets :: u8
  rotateTestSizes :: u8

definition InitializeDefaultConfig :: MemoryTestConfig where
  "InitializeDefaultConfig =
     \<lparr> flashTestSize = 0x8000, sram1TestSize = 0x4000,
       sram2TestSize = 0x2000, ccmTestSize = 0x2000,
       flashTestOffset = 0x20000, sram1TestOffset = 0x2000,
       sram2TestOffset = 0x400, ccmTestOffset = 0x400,
       addressTestStride = 256, numButterflyPairs = 16,
       reportIntervalMs = 1000, advancedTestInterval = 10,
       rotateStartingOffsets = 1, rotateTestSizes = 1 \<rparr>"

definition GetFlashTestStart :: "MemoryTestConfig \<Rightarrow> u32" where
  "GetFlashTestStart cfg = FLASH_START_ADDR + flashTestOffset cfg"

definition GetSRAM1TestStart :: "MemoryTestConfig \<Rightarrow> u32" where
  "GetSRAM1TestStart cfg = SRAM1_START_ADDR + sram1TestOffset cfg"

definition GetSRAM2TestStart :: "MemoryTestConfig \<Rightarrow> u32" where
  "GetSRAM2TestStart cfg = SRAM2_START_ADDR + sram2TestOffset cfg"

definition GetCCMTestStart :: "MemoryTestConfig \<Rightarrow> u32" where
  "GetCCMTestStart cfg = CCM_SRAM_START_ADDR + ccmTestOffset cfg"

subsection \<open>RotateTestParameters\<close>

text \<open>
  The divisors of the four remainders of the offset block (lines 140, 144, 149 and 154):
  bank size minus current test size minus the safety margin, in \<open>uint32_t\<close> arithmetic.
\<close>

definition maxFlashOffset :: "MemoryTestConfig \<Rightarrow> u32" where
  "maxFlashOffset cfg = FLASH_SIZE - flashTestSize cfg - 0x1000"

definition maxSram1Offset :: "MemoryTestConfig \<Rightarrow> u32" where
  "maxSram1Offset cfg = SRAM1_SIZE - sram1TestSize cfg - 0x1000"

definition maxSram2Offset :: "MemoryTestConfig \<Rightarrow> u32" where
  "maxSram2Offset cfg = SRAM2_SIZE - sram2TestSize cfg - 0x400"

definition maxCcmOffset :: "MemoryTestConfig \<Rightarrow> u32" where
  "maxCcmOffset cfg = CCM_SRAM_SIZE - ccmTestSize cfg - 0x400"

text \<open>The statement \<open>if (x < m) x = m;\<close> that follows three of the four remainders.\<close>

definition keep_margin :: "u32 \<Rightarrow> u32 \<Rightarrow> u32" where
  "keep_margin m x = (if x < m then m else x)"

text \<open>
  The body of \<open>if (testConfig.rotateStartingOffsets)\<close>, lines 136 to 157.  Each
  remainder is evaluated with the test size the configuration holds on entry.
\<close>

definition rotate_offsets :: "MemoryTestConfig \<Rightarrow> fault + MemoryTestConfig" where
  "rotate_offsets cfg =
     bindE (umod (flashTestOffset cfg + 0x10000) (maxFlashOffset cfg)) (\<lambda>fo.
     bindE (umod (sram1TestOffset cfg + 0x4000) (maxSram1Offset cfg)) (\<lambda>s1.
     bindE (umod (sram2TestOffset cfg + 0x1000) (maxSram2Offset cfg)) (\<lambda>s2.
     bindE (umod (ccmTestOffset cfg + 0x1000) (maxCcmOffset cfg)) (\<lambda>cc.
       Inr (cfg\<lparr> flashTestOffset := fo,
                 sram1TestOffset := keep_margin 0x1000 s1,
                 sram2TestOffset := keep_margin 0x400 s2,
                 ccmTestOffset := keep_margin 0x400 cc \<rparr>)))))"

text \<open>The \<open>switch ((cycleCounter / 5) % 3)\<close> of lines 162 to 183.\<close>

definition rotate_sizes :: "u32 \<Rightarrow> MemoryTestConfig \<Rightarrow> MemoryTestConfig" where
  "rotate_sizes cycleCounter cfg =
     (let k = (cycleCounter div 5) mod 3 in
      if k = 0 then
        cfg\<lparr> flashTestSize := 0x8000, sram1TestSize := 0x4000,
             sram2TestSize := 0x2000, ccmTestSize := 0x2000 \<rparr>
      else if k = 1 then
        cfg\<lparr> flashTestSize := 0x10000, sram1TestSize := 0x8000,
             sram2TestSize := 0x4000, ccmTestSize := 0x4000 \<rparr>
      else if k = 2 then
        cfg\<lparr> flashTestSize := 0x20000, sram1TestSize := 0x10000,
             sram2TestSize := 0x6000, ccmTestSize := 0x6000 \<rparr>
      else cfg)"

definition RotateTestParameters :: "u32 \<Rightarrow> MemoryTestConfig \<Rightarrow> fault + MemoryTestConfig" where
  "RotateTestParameters cycleCounter cfg =
     bindE (if rotateStartingOffsets cfg \<noteq> 0 then rotate_offsets cfg else Inr cfg) (\<lambda>cfg1.
       Inr (if rotateTestSizes cfg1 \<noteq> 0 \<and> cycleCounter mod 5 = 0
            then rotate_sizes cycleCounter cfg1 else cfg1))"

text \<open>
  A sequence of rotations, one per cycle counter value of the list, stopping at the first
  fault.  \<open>MainTestCycle\<close> calls the rotation once per cycle with the incremented counter.
\<close>

fun rotations :: "u32 list \<Rightarrow> MemoryTestConfig \<Rightarrow> fault + MemoryTestConfig" where
  "rotations [] cfg = Inr cfg"
| "rotations (c # cs) cfg = bindE (RotateTestParameters c cfg) (rotations cs)"

text \<open>
  The window invariant of one bank, read on natural numbers so that the sum cannot wrap:
  offset plus window size plus safety margin is at most the bank size.  The margins are
  the constants of the offset block: 4KB for Flash and SRAM1, 1KB for SRAM2 and CCM SRAM.
\<close>

definition window_ok :: "u32 \<Rightarrow> u32 \<Rightarrow> u32 \<Rightarrow> u32 \<Rightarrow> bool" where
  "window_ok bankSize margin offset testSize \<longleftrightarrow>
     unat offset + unat testSize + unat margin \<le> unat bankSize"

definition windows_ok :: "MemoryTestConfig \<Rightarrow> bool" where
  "windows_ok cfg \<longleftrightarrow>
     window_ok FLASH_SIZE 0x1000 (flashTestOffset cfg) (flashTestSize cfg) \<and>
     window_ok SRAM1_SIZE 0x1000 (sram1TestOffset cfg) (sram1TestSize cfg) \<and>
     window_ok SRAM2_SIZE 0x400 (sram2TestOffset cfg) (sram2TestSize cfg) \<and>
     window_ok CCM_SRAM_SIZE 0x400 (ccmTestOffset cfg) (ccmTestSize cfg)"

subsection \<open>Notions used to state the rotation properties\<close>

text \<open>No remainder of the offset block has a zero divisor.\<close>

definition divisors_nonzero :: "MemoryTestConfig \<Rightarrow> bool" where
  "divisors_nonzero cfg \<longleftrightarrow>
     maxFlashOffset cfg \<noteq> 0 \<and> maxSram1Offset cfg \<noteq> 0 \<and>
     maxSram2Offset cfg \<noteq> 0 \<and> maxCcmOffset cfg \<noteq> 0"


text \<open>The three SRAM2 test sizes the size block can select.\<close>

definition sram2_tier :: "u32 \<Rightarrow> bool" where
  "sram2_tier s \<longleftrightarrow> s = 0x2000 \<or> s = 0x4000 \<or> s = 0x6000"

definition sram2_rotating :: "MemoryTestConfig \<Rightarrow> bool" where
  "sram2_rotating cfg \<longleftrightarrow>
     rotateStartingOffsets cfg \<noteq> 0 \<and> sram2_tier (sram2TestSize cfg) \<and>
     maxFlashOffset cfg \<noteq> 0 \<and> maxSram1Offset cfg \<noteq> 0 \<and> maxCcmOffset cfg \<noteq> 0"

text \<open>
  The order of the two blocks as the specification describes it: the size tier is
  selected first and the offsets are then advanced with the new sizes.  Only used to
  compare with \<open>RotateTestParameters\<close>.
\<close>

definition RotateTestParameters_sizes_first ::
  "u32 \<Rightarrow> MemoryTestConfig \<Rightarrow> fault + MemoryTestConfig" where
  "RotateTestParameters_sizes_first cycleCounter cfg =
     (let cfg1 = (if rotateTestSizes cfg \<noteq> 0 \<and> cycleCounter mod 5 = 0
                  then rotate_sizes cycleCounter cfg else cfg)
      in if rotateStartingOffsets cfg1 \<noteq> 0 then rotate_offsets cfg1 else Inr cfg1)"

text \<open>
  The configurations the default one reaches after the rotations of cycles 1 to 4 and
  of cycles 1 to 5.
\<close>

definition config_after_four_cycles :: MemoryTestConfig where
  "config_after_four_cycles =
     InitializeDefaultConfig\<lparr> flashTestOffset := 0x60000, sram1TestOffset := 0x12000,
       sram2TestOffset := 0x4400, ccmTestOffset := 0x4400 \<rparr>"

definition config_after_five_cycles :: MemoryTestConfig where
  "config_after_five_cycles =
     InitializeDefaultConfig\<lparr> flashTestSize := 0x10000, sram1TestSize := 0x8000,
       sram2TestSize := 0x4000, ccmTestSize := 0x4000,
       flashTestOffset := 0x70000, sram1TestOffset := 0x3000,
       sram2TestOffset := 0x5400, ccmTestOffset := 0x5400 \<rparr>"

section \<open>Global state, persistent registers and reports\<close>

text \<open>
  What the firmware sends over the UART is modelled by the arguments of the
  \<open>snprintf\<close> call that formats the message, in the order of the call.
\<close>

datatype uart_msg =
    WatchdogResetReport u32 u32 u32 u32
  | PinResetReport
  | OtherResetReport u32
  | ErrorReport u32 u32 u32
  | ConfigStatusReport MemoryTestConfig
  | TestStatusReport
  | ButterflyTestError u32 u32 u32

text \<open>
  The test primitives act on the memory of the device.  The scheduler is modelled by the
  calls it makes, with their arguments; the error counts they return only enter the
  status counters, which no branch of the scheduler reads, and the counters are left out.
\<close>

datatype test_call =
    ImprovedAddressTest u32 u32 u32
  | EnhancedButterflyTest u32 u32 u32
  | CheckerboardTest u32 u32 u32
  | CacheTest
  | MarchCTest u32 u32
  | WalkingOnesTest u32 u32
  | WalkingZerosTest u32 u32
  | ModifiedCheckerboardTest u32 u32

datatype event = Uart uart_msg | Call test_call | IwdgRefresh

text \<open>
  The globals of the firmware, the RTC backup registers (by register index) and the
  sequence of externally visible events so far.
\<close>

record sys_state =
  testConfig :: MemoryTestConfig
  testCycleCounter :: u32
  currentTestMode :: u32
  lastReportTime :: u32
  currentTestOperation :: string
  bkp :: "u32 \<Rightarrow> u32"
  events :: "event list"

definition RTC_BKP_DR0 :: u32 where "RTC_BKP_DR0 = 0"
definition RTC_BKP_DR1 :: u32 where "RTC_BKP_DR1 = 1"
definition RTC_BKP_DR2 :: u32 where "RTC_BKP_DR2 = 2"
definition RTC_BKP_DR3 :: u32 where "RTC_BKP_DR3 = 3"

definition ERROR_NONE :: u32 where "ERROR_NONE = 0x00000000"
definition ERROR_ECC_DETECTED :: u32 where "ERROR_ECC_DETECTED = 0x00000006"

definition NORMAL_TEST_CYCLE :: u32 where "NORMAL_TEST_CYCLE = 0"
definition STRESS_TEST_CYCLE :: u32 where "STRESS_TEST_CYCLE = 1"
definition SRAM_ONLY_CYCLE :: u32 where "SRAM_ONLY_CYCLE = 2"
definition FLASH_ONLY_CYCLE :: u32 where "FLASH_ONLY_CYCLE = 3"
definition CACHE_ONLY_CYCLE :: u32 where "CACHE_ONLY_CYCLE = 4"

definition HAL_RTCEx_BKUPRead :: "u32 \<Rightarrow> sys_state \<Rightarrow> u32" where
  "HAL_RTCEx_BKUPRead reg s = bkp s reg"

definition HAL_RTCEx_BKUPWrite :: "u32 \<Rightarrow> u32 \<Rightarrow> sys_state \<Rightarrow> sys_state" where
  "HAL_RTCEx_BKUPWrite reg v s = s\<lparr>bkp := (bkp s)(reg := v)\<rparr>"

definition HAL_UART_Transmit :: "uart_msg \<Rightarrow> sys_state \<Rightarrow> sys_state" where
  "HAL_UART_Transmit m s = s\<lparr>events := events s @ [Uart m]\<rparr>"

definition HAL_IWDG_Refresh :: "sys_state \<Rightarrow> sys_state" where
  "HAL_IWDG_Refresh s = s\<lparr>events := events s @ [IwdgRefresh]\<rparr>"

section \<open>Watchdog handler (watchdog_handler.c)\<close>

text \<open>
  \<open>CheckForReset\<close>.  The value read from \<open>RCC->CSR\<close> is the argument \<open>resetCause\<close>.
  The flag masks \<open>RCC_CSR_IWDGRSTF\<close> and \<open>RCC_CSR_PINRSTF\<close> come from the device header
  of the vendor, which is not part of the repository: they are parameters.  Clearing the
  reset flags acts on the RCC peripheral only and is not modelled.
\<close>

definition CheckForReset :: "u32 \<Rightarrow> u32 \<Rightarrow> u32 \<Rightarrow> sys_state \<Rightarrow> sys_state" where
  "CheckForReset RCC_CSR_IWDGRSTF RCC_CSR_PINRSTF resetCause s =
     (if resetCause AND RCC_CSR_IWDGRSTF \<noteq> 0 then
        let resetCount = HAL_RTCEx_BKUPRead RTC_BKP_DR3 s + 1;
            s1 = HAL_RTCEx_BKUPWrite RTC_BKP_DR3 resetCount s;
            lastOperation = HAL_RTCEx_BKUPRead RTC_BKP_DR0 s1;
            lastCycle = HAL_RTCEx_BKUPRead RTC_BKP_DR1 s1;
            lastError = HAL_RTCEx_BKUPRead RTC_BKP_DR2 s1
        in HAL_UART_Transmit
             (WatchdogResetReport resetCount lastCycle lastOperation lastError) s1
      else if resetCause AND RCC_CSR_PINRSTF \<noteq> 0 then
        HAL_RTCEx_BKUPWrite RTC_BKP_DR2 0
          (HAL_RTCEx_BKUPWrite RTC_BKP_DR1 0
            (HAL_RTCEx_BKUPWrite RTC_BKP_DR0 0
              (HAL_UART_Transmit PinResetReport s)))
      else HAL_UART_Transmit (OtherResetReport resetCause) s)"

definition SaveTestState :: "u32 \<Rightarrow> u32 \<Rightarrow> sys_state \<Rightarrow> sys_state" where
  "SaveTestState operationCode errorCode s =
     (let s1 = HAL_RTCEx_BKUPWrite RTC_BKP_DR2 errorCode
                 (HAL_RTCEx_BKUPWrite RTC_BKP_DR1 (testCycleCounter s)
                   (HAL_RTCEx_BKUPWrite RTC_BKP_DR0 operationCode s))
      in if errorCode \<noteq> ERROR_NONE
         then HAL_UART_Transmit (ErrorReport errorCode operationCode (testCycleCounter s1)) s1
         else s1)"

text \<open>
  \<open>strncpy\<close> into the 64-byte buffer followed by the terminating write: the buffer then
  holds the characters of the argument up to its terminator, at most 63 of them.
\<close>

definition copy_operation :: "string \<Rightarrow> string" where
  "copy_operation operation = take 63 (takeWhile (\<lambda>ch. ch \<noteq> CHR 0x00) operation)"

definition UpdateTestOperationWithCode :: "string \<Rightarrow> u32 \<Rightarrow> sys_state \<Rightarrow> sys_state" where
  "UpdateTestOperationWithCode operation operationCode s =
     SaveTestState operationCode ERROR_NONE
       (s\<lparr>currentTestOperation := copy_operation operation\<rparr>)"

text \<open>\<open>HandleECCError\<close> of ecc_handler.c.\<close>

definition HandleECCError :: "u32 \<Rightarrow> sys_state \<Rightarrow> sys_state" where
  "HandleECCError operationCode s = SaveTestState operationCode ERROR_ECC_DETECTED s"

section \<open>Scheduler (main.c)\<close>

text \<open>
  The loop of \<open>UpdateTestOperation\<close> packs the first four characters of the operation
  name, up to its terminator, into the operation code.  The names are ASCII literals.
\<close>

definition operation_code :: "string \<Rightarrow> u32" where
  "operation_code operation =
     foldl (\<lambda>operationCode ch. push_bit 8 operationCode OR word_of_nat (of_char ch)) 0
       (take 4 (takeWhile (\<lambda>ch. ch \<noteq> CHR 0x00) operation))"

definition UpdateTestOperation :: "string \<Rightarrow> sys_state \<Rightarrow> sys_state" where
  "UpdateTestOperation operation s =
     SaveTestState (operation_code operation) 0
       (s\<lparr>currentTestOperation := copy_operation operation\<rparr>)"

definition ReportConfigStatus :: "sys_state \<Rightarrow> sys_state" where
  "ReportConfigStatus s = HAL_UART_Transmit (ConfigStatusReport (testConfig s)) s"

text \<open>
  \<open>ReportTestStatus\<close> is declared in memory_test.h and defined outside the sources at
  hand; it only prints the status counters.
\<close>

definition ReportTestStatus :: "sys_state \<Rightarrow> sys_state" where
  "ReportTestStatus s = HAL_UART_Transmit TestStatusReport s"

text \<open>
  One step of a test function: \<open>UpdateTestOperation\<close> with the name of the operation,
  then the calls of the test primitives that follow it.
\<close>

definition run_test :: "string \<Rightarrow> test_call list \<Rightarrow> sys_state \<Rightarrow> sys_state" where
  "run_test operation calls s =
     (let s1 = UpdateTestOperation operation s
      in s1\<lparr>events := events s1 @ map Call calls\<rparr>)"

fun run_tests :: "(string \<times> test_call list) list \<Rightarrow> sys_state \<Rightarrow> sys_state" where
  "run_tests [] s = s"
| "run_tests ((operation, calls) # steps) s = run_tests steps (run_test operation calls s)"

definition flash_basic_tests :: "MemoryTestConfig \<Rightarrow> (string \<times> test_call list) list" where
  "flash_basic_tests cfg =
     (let flashTestStart = GetFlashTestStart cfg in
      [(''Flash Address Test'',
          [ImprovedAddressTest flashTestStart (flashTestSize cfg) FLASH_SIZE]),
       (''Flash Butterfly Test'',
          [EnhancedButterflyTest flashTestStart (flashTestSize cfg) FLASH_SIZE]),
       (''Flash Checkerboard Test 0xAA55AA55'',
          [CheckerboardTest flashTestStart (flashTestSize cfg) 0xAA55AA55]),
       (''Flash Checkerboard Test 0x55AA55AA'',
          [CheckerboardTest flashTestStart (flashTestSize cfg) 0x55AA55AA])])"

text \<open>The basic tests of \<open>TestAllMemoryRegions\<close>, lines 170 to 320.\<close>

definition all_basic_tests :: "MemoryTestConfig \<Rightarrow> (string \<times> test_call list) list" where
  "all_basic_tests cfg =
     (let sram1TestStart = GetSRAM1TestStart cfg;
          sram2TestStart = GetSRAM2TestStart cfg;
          ccmTestStart = GetCCMTestStart cfg in
      flash_basic_tests cfg @
      [(''SRAM1 Address Test'',
          [ImprovedAddressTest sram1TestStart (sram1TestSize cfg) SRAM1_SIZE]),
       (''SRAM1 Butterfly Test'',
          [EnhancedButterflyTest sram1TestStart (sram1TestSize cfg) SRAM1_SIZE]),
       (''SRAM1 Checkerboard Test 0xAA55AA55'',
          [CheckerboardTest sram1TestStart (sram1TestSize cfg) 0xAA55AA55]),
       (''SRAM1 Checkerboard Test 0x55AA55AA'',
          [CheckerboardTest sram1TestStart (sram1TestSize cfg) 0x55AA55AA]),
       (''SRAM2 Address Test'',
          [ImprovedAddressTest sram2TestStart (sram2TestSize cfg) SRAM2_SIZE]),
       (''SRAM2 Butterfly Test'',
          [EnhancedButterflyTest sram2TestStart (sram2TestSize cfg) SRAM2_SIZE]),
       (''SRAM2 Checkerboard Test 0xAA55AA55'',
          [CheckerboardTest sram2TestStart (sram2TestSize cfg) 0xAA55AA55]),
       (''SRAM2 Checkerboard Test 0x55AA55AA'',
          [CheckerboardTest sram2TestStart (sram2TestSize cfg) 0x55AA55AA]),
       (''CCM SRAM Address Test'',
          [ImprovedAddressTest ccmTestStart (ccmTestSize cfg) CCM_SRAM_SIZE]),
       (''CCM SRAM Butterfly Test'',
          [EnhancedButterflyTest ccmTestStart (ccmTestSize cfg) CCM_SRAM_SIZE]),
       (''CCM SRAM Checkerboard Test 0xAA55AA55'',
          [CheckerboardTest ccmTestStart (ccmTestSize cfg) 0xAA55AA55]),
       (''CCM SRAM Checkerboard Test 0x55AA55AA'',
          [CheckerboardTest ccmTestStart (ccmTestSize cfg) 0x55AA55AA]),
       (''Flash Cache Test'', [CacheTest])])"

text \<open>The body of the scheduled block of \<open>TestAllMemoryRegions\<close>, lines 330 to 345.\<close>

definition all_advanced_tests :: "MemoryTestConfig \<Rightarrow> (string \<times> test_call list) list" where
  "all_advanced_tests cfg =
     (let marchSize = sram1TestSize cfg div 8;
          walkingSize = sram2TestSize cfg div 8 in
      [(''SRAM1 March C Test'', [MarchCTest (GetSRAM1TestStart cfg) marchSize]),
       (''SRAM2 Walking Test'',
          [WalkingOnesTest (GetSRAM2TestStart cfg) walkingSize,
           WalkingZerosTest (GetSRAM2TestStart cfg) walkingSize])])"

definition TestAllMemoryRegions :: "sys_state \<Rightarrow> fault + sys_state" where
  "TestAllMemoryRegions s =
     (let cfg = testConfig s;
          s1 = run_tests (all_basic_tests cfg) s
      in bindE (umod (testCycleCounter s1) (advancedTestInterval cfg)) (\<lambda>r.
           Inr (HAL_IWDG_Refresh
                  (if r = 0 then run_tests (all_advanced_tests cfg) s1 else s1))))"

text \<open>The basic tests of \<open>TestSRAMOnly\<close>, lines 363 to 442.\<close>

definition sram_basic_tests :: "MemoryTestConfig \<Rightarrow> (string \<times> test_call list) list" where
  "sram_basic_tests cfg =
     (let sram1TestStart = GetSRAM1TestStart cfg;
          sram2TestStart = GetSRAM2TestStart cfg;
          ccmTestStart = GetCCMTestStart cfg in
      [(''SRAM1 Address Test'',
          [ImprovedAddressTest sram1TestStart (sram1TestSize cfg) SRAM1_SIZE]),
       (''SRAM1 Butterfly Test'',
          [EnhancedButterflyTest sram1TestStart (sram1TestSize cfg) SRAM1_SIZE]),
       (''SRAM1 Checkerboard Test'',
          [CheckerboardTest sram1TestStart (sram1TestSize cfg) 0xAA55AA55]),
       (''SRAM2 Address Test'',
          [ImprovedAddressTest sram2TestStart (sram2TestSize cfg) SRAM2_SIZE]),
       (''SRAM2 Butterfly Test'',
          [EnhancedButterflyTest sram2TestStart (sram2TestSize cfg) SRAM2_SIZE]),
       (''SRAM2 Checkerboard Test'',
          [CheckerboardTest sram2TestStart (sram2TestSize cfg) 0xAA55AA55]),
       (''CCM SRAM Address Test'',
          [ImprovedAddressTest ccmTestStart (ccmTestSize cfg) CCM_SRAM_SIZE]),
       (''CCM SRAM Butterfly Test'',
          [EnhancedButterflyTest ccmTestStart (ccmTestSize cfg) CCM_SRAM_SIZE]),
       (''CCM SRAM Checkerboard Test'',
          [CheckerboardTest ccmTestStart (ccmTestSize cfg) 0xAA55AA55])])"

text \<open>The body of the scheduled block of \<open>TestSRAMOnly\<close>, lines 446 to 470.\<close>

definition sram_advanced_tests :: "MemoryTestConfig \<Rightarrow> (string \<times> test_call list) list" where
  "sram_advanced_tests cfg =
     (let marchSize = sram1TestSize cfg div 4;
          walkingSize = sram2TestSize cfg div 4 in
      [(''SRAM1 March C Test'', [MarchCTest (GetSRAM1TestStart cfg) marchSize]),
       (''SRAM2 Walking Test'',
          [WalkingOnesTest (GetSRAM2TestStart cfg) walkingSize,
           WalkingZerosTest (GetSRAM2TestStart cfg) walkingSize]),
       (''CCM SRAM Modified Checkerboard'',
          [ModifiedCheckerboardTest (GetCCMTestStart cfg) (ccmTestSize cfg div 4)])])"

definition TestSRAMOnly :: "sys_state \<Rightarrow> fault + sys_state" where
  "TestSRAMOnly s =
     (let cfg = testConfig s;
          s1 = run_tests (sram_basic_tests cfg) s
      in bindE (umod (testCycleCounter s1) (advancedTestInterval cfg div 2)) (\<lambda>r.
           Inr (HAL_IWDG_Refresh
                  (if r = 0 then run_tests (sram_advanced_tests cfg) s1 else s1))))"

definition TestFlashOnly :: "sys_state \<Rightarrow> fault + sys_state" where
  "TestFlashOnly s =
     Inr (HAL_IWDG_Refresh (run_tests (flash_basic_tests (testConfig s)) s))"

text \<open>The loop of \<open>TestCacheOnly\<close> runs its body five times.\<close>

fun cache_loop :: "nat \<Rightarrow> sys_state \<Rightarrow> sys_state" where
  "cache_loop 0 s = s"
| "cache_loop (Suc n) s =
     cache_loop n (HAL_IWDG_Refresh (run_test ''Flash Cache Test'' [CacheTest] s))"

definition TestCacheOnly :: "sys_state \<Rightarrow> fault + sys_state" where
  "TestCacheOnly s = Inr (cache_loop 5 s)"

text \<open>The parts of \<open>MainTestCycle\<close>, in the order of the source.\<close>

text \<open>Lines 116 to 118: the configuration report of every twentieth cycle.\<close>

definition config_report_if_due :: "sys_state \<Rightarrow> sys_state" where
  "config_report_if_due s =
     (if testCycleCounter s mod 20 = 0 then ReportConfigStatus s else s)"

text \<open>Lines 121 to 147: the \<open>switch (currentTestMode)\<close>.\<close>

definition run_current_mode :: "sys_state \<Rightarrow> fault + sys_state" where
  "run_current_mode s =
     (if currentTestMode s = STRESS_TEST_CYCLE then TestAllMemoryRegions s
      else if currentTestMode s = SRAM_ONLY_CYCLE then TestSRAMOnly s
      else if currentTestMode s = FLASH_ONLY_CYCLE then TestFlashOnly s
      else if currentTestMode s = CACHE_ONLY_CYCLE then TestCacheOnly s
      else TestAllMemoryRegions s)"

text \<open>
  Lines 150 to 153: the status report.  The two values \<open>HAL_GetTick\<close> returns are the
  arguments \<open>tick1\<close> and \<open>tick2\<close>.
\<close>

definition status_report_if_due :: "u32 \<Rightarrow> u32 \<Rightarrow> sys_state \<Rightarrow> sys_state" where
  "status_report_if_due tick1 tick2 s =
     (if tick1 - lastReportTime s \<ge> reportIntervalMs (testConfig s)
      then (ReportTestStatus s)\<lparr>lastReportTime := tick2\<rparr> else s)"

definition MainTestCycle :: "u32 \<Rightarrow> u32 \<Rightarrow> sys_state \<Rightarrow> fault + sys_state" where
  "MainTestCycle tick1 tick2 s =
     (let s1 = s\<lparr>testCycleCounter := testCycleCounter s + 1\<rparr> in
      bindE (RotateTestParameters (testCycleCounter s1) (testConfig s1)) (\<lambda>cfg.
      bindE (run_current_mode (config_report_if_due (s1\<lparr>testConfig := cfg\<rparr>))) (\<lambda>s4.
        Inr (HAL_IWDG_Refresh (status_report_if_due tick1 tick2 s4)))))"

text \<open>\<open>InitializeTests\<close>, without the status counters.\<close>

definition InitializeTests :: "sys_state \<Rightarrow> sys_state" where
  "InitializeTests s =
     ReportConfigStatus
       (s\<lparr> testConfig := InitializeDefaultConfig, testCycleCounter := 0,
           currentTestMode := NORMAL_TEST_CYCLE, lastReportTime := 0 \<rparr>)"

subsection \<open>Notions used to state the scheduling properties\<close>

text \<open>The March C and walking tests.\<close>

fun advanced_test :: "event \<Rightarrow> bool" where
  "advanced_test (Call (MarchCTest a n)) = True"
| "advanced_test (Call (WalkingOnesTest a n)) = True"
| "advanced_test (Call (WalkingZerosTest a n)) = True"
| "advanced_test e = False"

text \<open>The events a cycle adds to those of the state it starts from.\<close>

definition cycle_events :: "sys_state \<Rightarrow> fault + sys_state \<Rightarrow> event list" where
  "cycle_events s r =
     (case r of Inl e \<Rightarrow> [] | Inr s' \<Rightarrow> drop (length (events s)) (events s'))"

definition advanced_tests_ran :: "sys_state \<Rightarrow> fault + sys_state \<Rightarrow> bool" where
  "advanced_tests_ran s r \<longleftrightarrow> list_ex advanced_test (cycle_events s r)"

text \<open>
  The schedule of the advanced tests as the code has it: by mode, for the cycle counter
  value of the cycle and an advanced test interval of 10.
\<close>

definition advanced_due :: "u32 \<Rightarrow> u32 \<Rightarrow> bool" where
  "advanced_due mode cycle \<longleftrightarrow>
     (if mode = SRAM_ONLY_CYCLE then unat cycle mod 5 = 0
      else if mode = FLASH_ONLY_CYCLE \<or> mode = CACHE_ONLY_CYCLE then False
      else unat cycle mod 10 = 0)"

text \<open>A state \<open>s'\<close> that differs from \<open>s\<close> by the events \<open>X\<close> added at the end.\<close>

definition extends :: "sys_state \<Rightarrow> sys_state \<Rightarrow> event list \<Rightarrow> bool" where
  "extends s s' X \<longleftrightarrow> events s' = events s @ X \<and> testConfig s' = testConfig s \<and>
     testCycleCounter s' = testCycleCounter s \<and> currentTestMode s' = currentTestMode s \<and>
     lastReportTime s' = lastReportTime s"

text \<open>
  The three advanced test calls on the fraction \<open>1/d\<close> of the SRAM1 and SRAM2 windows
  of a configuration, in the order of the scheduled blocks.
\<close>

definition advanced_calls :: "u32 \<Rightarrow> MemoryTestConfig \<Rightarrow> event list" where
  "advanced_calls d cfg =
     [Call (MarchCTest (GetSRAM1TestStart cfg) (sram1TestSize cfg div d)),
      Call (WalkingOnesTest (GetSRAM2TestStart cfg) (sram2TestSize cfg div d)),
      Call (WalkingZerosTest (GetSRAM2TestStart cfg) (sram2TestSize cfg div d))]"

text \<open>
  The advanced test calls of a cycle as the code schedules them, by mode, for the cycle
  counter value of the cycle and an advanced test interval of 10.
\<close>

definition advanced_schedule :: "u32 \<Rightarrow> u32 \<Rightarrow> MemoryTestConfig \<Rightarrow> event list" where
  "advanced_schedule mode cycle cfg =
     (if mode = SRAM_ONLY_CYCLE
      then (if unat cycle mod 5 = 0 then advanced_calls 4 cfg else [])
      else if mode = FLASH_ONLY_CYCLE \<or> mode = CACHE_ONLY_CYCLE then []
      else (if unat cycle mod 10 = 0 then advanced_calls 8 cfg else []))"

text \<open>
  Example states.  \<open>power_on_state\<close> has the zero-initialised globals of a start with
  cleared backup registers.
\<close>

definition zero_regs :: "u32 \<Rightarrow> u32" where
  "zero_regs r = 0"

definition power_on_state :: sys_state where
  "power_on_state =
     \<lparr> testConfig =
         \<lparr> flashTestSize = 0, sram1TestSize = 0, sram2TestSize = 0, ccmTestSize = 0,
           flashTestOffset = 0, sram1TestOffset = 0, sram2TestOffset = 0, ccmTestOffset = 0,
           addressTestStride = 0, numButterflyPairs = 0, reportIntervalMs = 0,
           advancedTestInterval = 0, rotateStartingOffsets = 0, rotateTestSizes = 0 \<rparr>,
       testCycleCounter = 0, currentTestMode = 0, lastReportTime = 0,
       currentTestOperation = [], bkp = zero_regs, events = [] \<rparr>"

definition hung_state :: sys_state where
  "hung_state =
     \<lparr> testConfig = InitializeDefaultConfig, testCycleCounter = 0,
       currentTestMode = NORMAL_TEST_CYCLE, lastReportTime = 0,
       currentTestOperation = [],
       bkp = zero_regs(RTC_BKP_DR0 := 0x41, RTC_BKP_DR1 := 37, RTC_BKP_DR2 := 0x06,
                       RTC_BKP_DR3 := 2),
       events = [] \<rparr>"

definition sram_only_state :: sys_state where
  "sram_only_state = (InitializeTests power_on_state)
     \<lparr> testConfig := config_after_four_cycles, testCycleCounter := 4,
       currentTestMode := SRAM_ONLY_CYCLE \<rparr>"

definition flash_only_state :: sys_state where
  "flash_only_state = (InitializeTests power_on_state)
     \<lparr> testCycleCounter := 9, currentTestMode := FLASH_ONLY_CYCLE \<rparr>"

definition normal_state :: sys_state where
  "normal_state = (InitializeTests power_on_state)\<lparr> testCycleCounter := 9 \<rparr>"

text \<open>The rotation of a cycle meets no zero divisor.\<close>

definition rotation_defined :: "MemoryTestConfig \<Rightarrow> bool" where
  "rotation_defined cfg \<longleftrightarrow> rotateStartingOffsets cfg = 0 \<or> divisors_nonzero cfg"

section \<open>Enhanced butterfly test (address_tests.c)\<close>

text \<open>
  The test reads and writes the memory of the device, which may be faulty: the memory
  has an abstract state of type \<open>'m\<close>, and what a 32-bit store does to it and what a
  32-bit load returns are the parameters \<open>wr\<close> and \<open>rd\<close>.  The state of a run holds the
  memory, the accesses made so far with their addresses, the local error count and the
  messages sent.
\<close>

datatype access = Write u32 u32 | Read u32

fun access_addr :: "access \<Rightarrow> u32" where
  "access_addr (Write a v) = a"
| "access_addr (Read a) = a"

record 'm bfly_state =
  mem :: 'm
  accesses :: "access list"
  errors :: u32
  uart_out :: "uart_msg list"

definition store32 ::
  "('m \<Rightarrow> u32 \<Rightarrow> u32 \<Rightarrow> 'm) \<Rightarrow> u32 \<Rightarrow> u32 \<Rightarrow> 'm bfly_state \<Rightarrow> 'm bfly_state" where
  "store32 wr a v st = st\<lparr>mem := wr (mem st) a v, accesses := accesses st @ [Write a v]\<rparr>"

definition load32 ::
  "('m \<Rightarrow> u32 \<Rightarrow> u32) \<Rightarrow> u32 \<Rightarrow> 'm bfly_state \<Rightarrow> u32 \<times> 'm bfly_state" where
  "load32 rd a st = (rd (mem st) a, st\<lparr>accesses := accesses st @ [Read a]\<rparr>)"

text \<open>
  The first two checks of a pair (lines 157 to 177): on a mismatch the error count is
  incremented and the report reads the location again.
\<close>

definition verify_reported ::
  "('m \<Rightarrow> u32 \<Rightarrow> u32) \<Rightarrow> u32 \<Rightarrow> u32 \<Rightarrow> 'm bfly_state \<Rightarrow> 'm bfly_state" where
  "verify_reported rd a expected st =
     (let (v, st1) = load32 rd a st in
      if v \<noteq> expected then
        let st2 = st1\<lparr>errors := errors st1 + 1\<rparr>;
            (v2, st3) = load32 rd a st2
        in st3\<lparr>uart_out := uart_out st3 @ [ButterflyTestError a v2 expected]\<rparr>
      else st1)"

text \<open>The checks after the swap (lines 184 and 185) only count.\<close>

definition verify_counted ::
  "('m \<Rightarrow> u32 \<Rightarrow> u32) \<Rightarrow> u32 \<Rightarrow> u32 \<Rightarrow> 'm bfly_state \<Rightarrow> 'm bfly_state" where
  "verify_counted rd a expected st =
     (let (v, st1) = load32 rd a st in
      if v \<noteq> expected then st1\<lparr>errors := errors st1 + 1\<rparr> else st1)"

text \<open>The body of the third loop (lines 147 to 186) for pair \<open>i\<close> with addresses \<open>p\<close>.\<close>

definition test_pair ::
  "('m \<Rightarrow> u32 \<Rightarrow> u32 \<Rightarrow> 'm) \<Rightarrow> ('m \<Rightarrow> u32 \<Rightarrow> u32) \<Rightarrow> u32 \<Rightarrow> nat \<Rightarrow> u32 \<times> u32 \<Rightarrow>
     'm bfly_state \<Rightarrow> 'm bfly_state" where
  "test_pair wr rd cycle i p st =
     (let p1 = pattern1 cycle (of_nat i);
          p2 = pattern2 cycle (of_nat i);
          st1 = store32 wr (fst p) p1 st;
          st2 = store32 wr (snd p) p2 st1;
          st3 = verify_reported rd (fst p) p1 st2;
          st4 = verify_reported rd (snd p) p2 st3;
          st5 = store32 wr (fst p) p2 st4;
          st6 = store32 wr (snd p) p1 st5;
          st7 = verify_counted rd (fst p) p2 st6
      in verify_counted rd (snd p) p1 st7)"

text \<open>A \<open>for\<close> loop over the index values of a list, stopping at the first fault.\<close>

fun for_each :: "(nat \<Rightarrow> 's \<Rightarrow> fault + 's) \<Rightarrow> nat list \<Rightarrow> 's \<Rightarrow> fault + 's" where
  "for_each body [] s = Inr s"
| "for_each body (i # rest) s = bindE (body i s) (for_each body rest)"

text \<open>
  The remapping of lines 105 to 109: an address outside the window is replaced by the
  window start plus the address modulo the window size.
\<close>

definition map_into_window :: "u32 \<Rightarrow> u32 \<Rightarrow> u32 \<Rightarrow> fault + u32" where
  "map_into_window startAddr wsize a =
     (if a < startAddr \<or> a \<ge> startAddr + wsize
      then bindE (umod a wsize) (\<lambda>r. Inr (startAddr + r))
      else Inr a)"

text \<open>
  The body of the first loop (lines 96 to 115).  The array \<open>pairs\<close> is a function from
  the index to the two addresses of the pair.
\<close>

definition spanning_pair ::
  "u32 \<Rightarrow> u32 \<Rightarrow> u32 \<Rightarrow> u32 \<Rightarrow> u32 \<Rightarrow> u32 \<Rightarrow> nat \<Rightarrow> (nat \<Rightarrow> u32 \<times> u32) \<Rightarrow>
     fault + (nat \<Rightarrow> u32 \<times> u32)" where
  "spanning_pair startAddr wsize totalSize numPairs baseAddr rotationOffset i pairs =
     bindE (udiv totalSize numPairs) (\<lambda>q1.
     bindE (umod (rotationOffset + of_nat i * q1) totalSize) (\<lambda>pos1.
     bindE (udiv totalSize numPairs) (\<lambda>q2.
     bindE (umod (rotationOffset + (of_nat i * q2 + totalSize div 2)) totalSize) (\<lambda>pos2.
     bindE (map_into_window startAddr wsize (baseAddr + pos1)) (\<lambda>a0.
     bindE (map_into_window startAddr wsize (baseAddr + pos2)) (\<lambda>a1.
       Inr (pairs(i := (a0, a1)))))))))"

text \<open>The body of the second loop (lines 120 to 140).\<close>

definition power_of_two_pair ::
  "u32 \<Rightarrow> u32 \<Rightarrow> u32 \<Rightarrow> u32 \<Rightarrow> u32 \<Rightarrow> u32 \<Rightarrow> nat \<Rightarrow> (nat \<Rightarrow> u32 \<times> u32) \<Rightarrow>
     fault + (nat \<Rightarrow> u32 \<times> u32)" where
  "power_of_two_pair startAddr wsize totalSize numPairs baseAddr rotationOffset i pairs =
     (let shifted = push_bit (i + 2) 1;
          bitPosition = (if shifted \<ge> totalSize then totalSize div 2 else shifted) in
      bindE (umod rotationOffset totalSize) (\<lambda>pos1.
      bindE (umod (rotationOffset + bitPosition) totalSize) (\<lambda>pos2.
      bindE (map_into_window startAddr wsize (baseAddr + pos1)) (\<lambda>a0.
      bindE (map_into_window startAddr wsize (baseAddr + pos2)) (\<lambda>a1.
        Inr (pairs(unat numPairs + i := (a0, a1))))))))"

text \<open>
  \<open>RunEnhancedButterflyTest\<close>.  \<open>cfg\<close> is the global configuration, \<open>cycle\<close> the value
  of \<open>testCycleCounter\<close>, \<open>pairs0\<close> the content of the uninitialised local array and
  \<open>m\<close> the memory at the call.  The result is the state at the return; its error count
  is the value returned.
\<close>

definition RunEnhancedButterflyTest ::
  "('m \<Rightarrow> u32 \<Rightarrow> u32 \<Rightarrow> 'm) \<Rightarrow> ('m \<Rightarrow> u32 \<Rightarrow> u32) \<Rightarrow> MemoryTestConfig \<Rightarrow> u32 \<Rightarrow>
     (nat \<Rightarrow> u32 \<times> u32) \<Rightarrow> u32 \<Rightarrow> u32 \<Rightarrow> u32 \<Rightarrow> 'm \<Rightarrow> fault + 'm bfly_state" where
  "RunEnhancedButterflyTest wr rd cfg cycle pairs0 startAddr wsize totalSize m =
     bindE (umod startAddr totalSize) (\<lambda>r.
     let baseAddr = startAddr - r;
         numPairs = (if numButterflyPairs cfg > 32 then 32 else numButterflyPairs cfg) in
     bindE (umod (cycle * 19) totalSize) (\<lambda>rotationOffset.
     bindE (for_each
              (spanning_pair startAddr wsize totalSize numPairs baseAddr rotationOffset)
              [0..<unat numPairs] pairs0) (\<lambda>pairs1.
     bindE (for_each
              (power_of_two_pair startAddr wsize totalSize numPairs baseAddr rotationOffset)
              (takeWhile (\<lambda>i. i + unat numPairs < 32) [0..<5]) pairs1) (\<lambda>pairs2.
     let numPairs' = (if numPairs + 5 \<le> 32 then numPairs + 5 else 32) in
     for_each (\<lambda>i st. Inr (test_pair wr rd cycle i (pairs2 i) st))
       [0..<unat numPairs']
       \<lparr> mem = m, accesses = [], errors = 0, uart_out = [] \<rparr>))))"

subsection \<open>Notions used to state the window property\<close>

text \<open>
  Address \<open>a\<close> lies in the window of \<open>wsize\<close> bytes that starts at \<open>startAddr\<close>: its
  distance from the start, in 32-bit arithmetic, is below the size.
\<close>

definition in_window :: "u32 \<Rightarrow> u32 \<Rightarrow> u32 \<Rightarrow> bool" where
  "in_window startAddr wsize a \<longleftrightarrow> a - startAddr < wsize"

definition pair_in_window :: "u32 \<Rightarrow> u32 \<Rightarrow> u32 \<times> u32 \<Rightarrow> bool" where
  "pair_in_window startAddr wsize p \<longleftrightarrow>
     in_window startAddr wsize (fst p) \<and> in_window startAddr wsize (snd p)"

definition accesses_in_window :: "u32 \<Rightarrow> u32 \<Rightarrow> 'm bfly_state \<Rightarrow> bool" where
  "accesses_in_window startAddr wsize st \<longleftrightarrow>
     list_all (\<lambda>a. in_window startAddr wsize (access_addr a)) (accesses st)"

text \<open>The stores among the accesses.\<close>

fun is_write :: "access \<Rightarrow> bool" where
  "is_write (Write a v) = True"
| "is_write (Read a) = False"

text \<open>
  The addresses of the four bytes a 32-bit access covers: its own address and the three
  that follow.
\<close>

definition access_bytes :: "access \<Rightarrow> u32 list" where
  "access_bytes a = [access_addr a, access_addr a + 1, access_addr a + 2, access_addr a + 3]"

definition bytes_in_window :: "u32 \<Rightarrow> u32 \<Rightarrow> 'm bfly_state \<Rightarrow> bool" where
  "bytes_in_window startAddr wsize st \<longleftrightarrow>
     list_all (\<lambda>a. list_all (in_window startAddr wsize) (access_bytes a)) (accesses st)"

text \<open>An array content for the uninitialised pair array.\<close>

definition blank_pairs :: "nat \<Rightarrow> u32 \<times> u32" where
  "blank_pairs i = (0, 0)"

text \<open>A memory that holds zero everywhere.\<close>

definition blank_memory :: "u32 \<Rightarrow> u32" where
  "blank_memory a = 0"

text \<open>An ideal memory: a map from addresses to the word last stored there.\<close>

definition ideal_write :: "(u32 \<Rightarrow> u32) \<Rightarrow> u32 \<Rightarrow> u32 \<Rightarrow> (u32 \<Rightarrow> u32)" where
  "ideal_write m a v = m(a := v)"

definition ideal_read :: "(u32 \<Rightarrow> u32) \<Rightarrow> u32 \<Rightarrow> u32" where
  "ideal_read m a = m a"

section \<open>Basic facts\<close>

lemma bindE_simps [simp]:
  "bindE (Inl e) f = Inl e"
  "bindE (Inr x) f = f x"
  by (simp_all add: bindE_def)

lemmas bank_sizes = FLASH_SIZE_def SRAM1_SIZE_def SRAM2_SIZE_def CCM_SRAM_SIZE_def

lemmas max_offsets = maxFlashOffset_def maxSram1Offset_def maxSram2Offset_def maxCcmOffset_def

lemmas rotation_defs = RotateTestParameters_def rotate_offsets_def rotate_sizes_def umod_def
  max_offsets keep_margin_def bank_sizes

section \<open>Pattern generators\<close>

lemma GenerateAddressPattern_xor:
  "GenerateAddressPattern c a1 XOR GenerateAddressPattern c a2 = a1 XOR a2"
  unfolding GenerateAddressPattern_def by (simp add: ac_simps)

lemma single_bit_nonzero: "k < 32 \<Longrightarrow> push_bit k (1::u32) \<noteq> 0"
  by simp

text \<open>
  Claim C8.  Two addresses that differ in exactly one bit (\<open>a2\<close> is \<open>a1\<close> with bit \<open>k\<close>
  flipped, \<open>k\<close> below 32) get different address patterns, whatever the cycle counter is.
\<close>

theorem GenerateAddressPattern_single_bit_distinct:
  assumes "k < 32" and "a2 = a1 XOR push_bit k 1"
  shows "GenerateAddressPattern c a1 \<noteq> GenerateAddressPattern c a2"
proof
  assume "GenerateAddressPattern c a1 = GenerateAddressPattern c a2"
  then have "GenerateAddressPattern c a1 XOR GenerateAddressPattern c a2 = 0" by simp
  then have "a1 XOR a2 = 0" by (simp only: GenerateAddressPattern_xor)
  with assms(2) have "a1 XOR (a1 XOR push_bit k 1) = 0" by simp
  then have "push_bit k (1::u32) = 0" by (simp add: xor.assoc [symmetric])
  with single_bit_nonzero [OF assms(1)] show False by simp
qed

theorem GenerateAddressPattern_single_bit_distinct_witness:
  "(15::nat) < 32 \<and>
   GenerateAddressPattern 37 0x20000400 \<noteq>
     GenerateAddressPattern 37 (0x20000400 XOR push_bit 15 1)"
proof -
  have h: "(15::nat) < 32" by simp
  show ?thesis
    by (intro conjI h GenerateAddressPattern_single_bit_distinct [OF h refl])
qed

lemma complement_of_A: "NOT (0xAAAAAAAA::u32) = 0x55555555"
  by simp

lemma pattern2_complement: "pattern2 cycle i = NOT (pattern1 cycle i)"
proof -
  have "NOT (pattern1 cycle i) = NOT 0xAAAAAAAA XOR (i * 0x11111111) XOR cycle"
    unfolding pattern1_def by (simp only: bit.xor_compl_left)
  also have "\<dots> = pattern2 cycle i"
    unfolding pattern2_def by (simp only: complement_of_A)
  finally show ?thesis by simp
qed

section \<open>Window rotation\<close>

lemma rotations_one_to_four:
  "rotations [1, 2, 3, 4] InitializeDefaultConfig = Inr config_after_four_cycles"
  by (simp add: rotation_defs InitializeDefaultConfig_def config_after_four_cycles_def)

lemma rotations_one_to_five:
  "rotations [1, 2, 3, 4, 5] InitializeDefaultConfig = Inr config_after_five_cycles"
  by (simp add: rotation_defs InitializeDefaultConfig_def config_after_five_cycles_def)

text \<open>
  Claim C1.  The window invariant does not survive every rotation.  The default
  configuration satisfies it; the rotations of cycles 1 to 5, which is what the first
  five calls of \<open>MainTestCycle\<close> perform, succeed and leave the Flash window at offset
  0x70000 with size 0x10000 and the SRAM2 window at offset 0x5400 with size 0x4000: both
  end beyond their bank (0x81000 > 0x80000 and 0x9800 > 0x8000 with the margins).  The
  offsets were reduced modulo the bound of the old size, and the size block then enlarged
  the windows.
\<close>

theorem default_rotations_break_window_invariant:
  "windows_ok InitializeDefaultConfig \<and>
   rotations [1, 2, 3, 4, 5] InitializeDefaultConfig = Inr config_after_five_cycles \<and>
   \<not> window_ok FLASH_SIZE 0x1000 (flashTestOffset config_after_five_cycles)
        (flashTestSize config_after_five_cycles) \<and>
   \<not> window_ok SRAM2_SIZE 0x400 (sram2TestOffset config_after_five_cycles)
        (sram2TestSize config_after_five_cycles) \<and>
   \<not> windows_ok config_after_five_cycles"
proof -
  have "windows_ok InitializeDefaultConfig"
    by (simp add: windows_ok_def window_ok_def InitializeDefaultConfig_def bank_sizes)
  moreover have "\<not> window_ok FLASH_SIZE 0x1000 (flashTestOffset config_after_five_cycles)
        (flashTestSize config_after_five_cycles)"
    by (simp add: window_ok_def InitializeDefaultConfig_def config_after_five_cycles_def
        FLASH_SIZE_def)
  moreover have "\<not> window_ok SRAM2_SIZE 0x400 (sram2TestOffset config_after_five_cycles)
        (sram2TestSize config_after_five_cycles)"
    by (simp add: window_ok_def InitializeDefaultConfig_def config_after_five_cycles_def
        SRAM2_SIZE_def)
  ultimately show ?thesis
    using rotations_one_to_five by (simp add: windows_ok_def)
qed


lemma rotate_offsets_Inr:
  "divisors_nonzero cfg \<Longrightarrow>
   rotate_offsets cfg = Inr (cfg\<lparr>
     flashTestOffset := (flashTestOffset cfg + 0x10000) mod maxFlashOffset cfg,
     sram1TestOffset :=
       keep_margin 0x1000 ((sram1TestOffset cfg + 0x4000) mod maxSram1Offset cfg),
     sram2TestOffset :=
       keep_margin 0x400 ((sram2TestOffset cfg + 0x1000) mod maxSram2Offset cfg),
     ccmTestOffset :=
       keep_margin 0x400 ((ccmTestOffset cfg + 0x1000) mod maxCcmOffset cfg) \<rparr>)"
  by (simp add: rotate_offsets_def umod_def divisors_nonzero_def)

lemma rotate_offsets_Inl:
  "\<not> divisors_nonzero cfg \<Longrightarrow> rotate_offsets cfg = Inl DivisionByZero"
  by (auto simp add: rotate_offsets_def umod_def divisors_nonzero_def)

text \<open>
  Claim C6.  The code does not select the size tier before it advances the offsets, and
  the window leaves its bank for that reason.  The default configuration reaches
  \<open>config_after_four_cycles\<close> by the rotations of cycles 1 to 4, with all four windows
  inside their banks.  The rotation of cycle 5, where the size rotation is due, leaves
  the SRAM2 offset at 0x5400, the advance modulo the bound 0x5C00 of the old size 0x2000,
  and then sets the size to 0x4000: the window ends beyond the bank (0x5400 + 0x4000 +
  0x400 = 0x9800 > 0x8000).  Selecting the size first, as the claim describes, gives the
  offset 0x1800, the advance modulo the bound 0x3C00 of the new size, and keeps all four
  windows inside their banks.
\<close>

theorem RotateTestParameters_not_sizes_first:
  "rotations [1, 2, 3, 4] InitializeDefaultConfig = Inr config_after_four_cycles \<and>
   windows_ok config_after_four_cycles \<and>
   map_sum id sram2TestOffset (RotateTestParameters 5 config_after_four_cycles)
     = Inr 0x5400 \<and>
   map_sum id sram2TestSize (RotateTestParameters 5 config_after_four_cycles)
     = Inr 0x4000 \<and>
   map_sum id windows_ok (RotateTestParameters 5 config_after_four_cycles) = Inr False \<and>
   map_sum id sram2TestOffset (RotateTestParameters_sizes_first 5 config_after_four_cycles)
     = Inr 0x1800 \<and>
   map_sum id sram2TestSize (RotateTestParameters_sizes_first 5 config_after_four_cycles)
     = Inr 0x4000 \<and>
   map_sum id windows_ok (RotateTestParameters_sizes_first 5 config_after_four_cycles)
     = Inr True"
proof -
  have "windows_ok config_after_four_cycles"
    by (simp add: windows_ok_def window_ok_def config_after_four_cycles_def
        InitializeDefaultConfig_def bank_sizes)
  moreover have "RotateTestParameters 5 config_after_four_cycles = Inr config_after_five_cycles"
    by (simp add: rotation_defs InitializeDefaultConfig_def config_after_four_cycles_def
        config_after_five_cycles_def)
  moreover have "\<not> windows_ok config_after_five_cycles"
    by (simp add: windows_ok_def window_ok_def config_after_five_cycles_def
        InitializeDefaultConfig_def bank_sizes)
  moreover have "sram2TestOffset config_after_five_cycles = 0x5400"
    "sram2TestSize config_after_five_cycles = 0x4000"
    by (simp_all add: config_after_five_cycles_def)
  moreover have "RotateTestParameters_sizes_first 5 config_after_four_cycles =
     Inr (InitializeDefaultConfig\<lparr> flashTestSize := 0x10000, sram1TestSize := 0x8000,
       sram2TestSize := 0x4000, ccmTestSize := 0x4000,
       flashTestOffset := 0x1000, sram1TestOffset := 0x7000,
       sram2TestOffset := 0x1800, ccmTestOffset := 0x1800 \<rparr>)"
    by (simp add: rotation_defs RotateTestParameters_sizes_first_def InitializeDefaultConfig_def
        config_after_four_cycles_def)
  moreover have "windows_ok (InitializeDefaultConfig\<lparr> flashTestSize := 0x10000,
       sram1TestSize := 0x8000, sram2TestSize := 0x4000, ccmTestSize := 0x4000,
       flashTestOffset := 0x1000, sram1TestOffset := 0x7000,
       sram2TestOffset := 0x1800, ccmTestOffset := 0x1800 \<rparr>)"
    by (simp add: windows_ok_def window_ok_def InitializeDefaultConfig_def bank_sizes)
  ultimately show ?thesis
    using rotations_one_to_four by simp
qed

subsection \<open>The SRAM2 scenario\<close>

lemma mod3_cases: "(x::u32) mod 3 = 0 \<or> x mod 3 = 1 \<or> x mod 3 = 2"
proof -
  have "x mod 3 < 3" by (rule word_mod_less_divisor) simp
  then have "unat (x mod 3) < 3" by (simp add: word_less_nat_alt)
  then have "unat (x mod 3) = 0 \<or> unat (x mod 3) = 1 \<or> unat (x mod 3) = 2" by arith
  then show ?thesis by (simp add: word_unat_eq_iff)
qed

lemma sram2_bound:
  assumes "sram2_tier s"
  shows "keep_margin 0x400 (x mod (SRAM2_SIZE - s - 0x400)) \<le> 0x5C00"
proof -
  let ?m = "SRAM2_SIZE - s - 0x400"
  from assms have m: "?m \<noteq> 0" "?m \<le> 0x5C00"
    by (auto simp add: sram2_tier_def SRAM2_SIZE_def)
  have "x mod ?m < ?m"
    using m(1) by (simp add: word_mod_less_divisor word_greater_zero_iff)
  with m(2) have "x mod ?m \<le> 0x5C00" by simp
  then show ?thesis by (simp add: keep_margin_def)
qed

lemma tier_divisors:
  "maxFlashOffset (rotate_sizes c cfg) \<noteq> 0 \<and> maxSram1Offset (rotate_sizes c cfg) \<noteq> 0 \<and>
   maxCcmOffset (rotate_sizes c cfg) \<noteq> 0 \<and> sram2_tier (sram2TestSize (rotate_sizes c cfg))"
  using mod3_cases [of "c div 5"]
  by (auto simp add: rotate_sizes_def Let_def sram2_tier_def maxFlashOffset_def
      maxSram1Offset_def maxCcmOffset_def FLASH_SIZE_def SRAM1_SIZE_def CCM_SRAM_SIZE_def)

lemma rotate_sizes_keeps:
  "rotateStartingOffsets (rotate_sizes c cfg) = rotateStartingOffsets cfg"
  "sram2TestOffset (rotate_sizes c cfg) = sram2TestOffset cfg"
  by (simp_all add: rotate_sizes_def Let_def)

lemma rotate_offsets_fields:
  assumes "divisors_nonzero cfg"
  shows "\<exists>cfg1. rotate_offsets cfg = Inr cfg1 \<and>
     sram2TestOffset cfg1 = keep_margin 0x400
       ((sram2TestOffset cfg + 0x1000) mod (SRAM2_SIZE - sram2TestSize cfg - 0x400)) \<and>
     sram2TestSize cfg1 = sram2TestSize cfg \<and>
     rotateStartingOffsets cfg1 = rotateStartingOffsets cfg \<and>
     rotateTestSizes cfg1 = rotateTestSizes cfg \<and>
     maxFlashOffset cfg1 = maxFlashOffset cfg \<and> maxSram1Offset cfg1 = maxSram1Offset cfg \<and>
     maxCcmOffset cfg1 = maxCcmOffset cfg"
  by (simp add: rotate_offsets_Inr [OF assms] max_offsets)

lemma sram2_rotation_step:
  assumes "sram2_rotating cfg"
  shows "\<exists>cfg'. RotateTestParameters c cfg = Inr cfg' \<and> sram2_rotating cfg' \<and>
           sram2TestOffset cfg' = keep_margin 0x400
             ((sram2TestOffset cfg + 0x1000) mod (SRAM2_SIZE - sram2TestSize cfg - 0x400))"
proof -
  from assms have t: "sram2_tier (sram2TestSize cfg)" by (simp add: sram2_rotating_def)
  then have "maxSram2Offset cfg \<noteq> 0"
    by (auto simp add: sram2_tier_def maxSram2Offset_def SRAM2_SIZE_def)
  with assms have d: "divisors_nonzero cfg"
    by (simp add: sram2_rotating_def divisors_nonzero_def)
  from assms have r: "rotateStartingOffsets cfg \<noteq> 0" by (simp add: sram2_rotating_def)
  from rotate_offsets_fields [OF d] obtain cfg1 where
    f: "rotate_offsets cfg = Inr cfg1"
     "sram2TestOffset cfg1 = keep_margin 0x400
        ((sram2TestOffset cfg + 0x1000) mod (SRAM2_SIZE - sram2TestSize cfg - 0x400))"
     "sram2TestSize cfg1 = sram2TestSize cfg"
     "rotateStartingOffsets cfg1 = rotateStartingOffsets cfg"
     "rotateTestSizes cfg1 = rotateTestSizes cfg"
     "maxFlashOffset cfg1 = maxFlashOffset cfg" "maxSram1Offset cfg1 = maxSram1Offset cfg"
     "maxCcmOffset cfg1 = maxCcmOffset cfg"
    by blast
  from assms f have i1: "sram2_rotating cfg1" by (simp add: sram2_rotating_def)
  define due where "due \<longleftrightarrow> rotateTestSizes cfg1 \<noteq> 0 \<and> c mod 5 = 0"
  have R: "RotateTestParameters c cfg = Inr (if due then rotate_sizes c cfg1 else cfg1)"
    using r by (simp add: RotateTestParameters_def f(1) due_def)
  show ?thesis
  proof (cases due)
    case True
    have "sram2_rotating (rotate_sizes c cfg1)"
      using tier_divisors [of c cfg1] r f(4)
      by (simp add: sram2_rotating_def rotate_sizes_keeps)
    with True R f(2) show ?thesis by (simp add: rotate_sizes_keeps)
  next
    case False
    with R i1 f(2) show ?thesis by simp
  qed
qed

lemma sram2_rotations_bounded:
  "sram2_rotating cfg \<Longrightarrow> sram2TestOffset cfg \<le> 0x5C00 \<Longrightarrow>
     \<exists>cfg'. rotations cs cfg = Inr cfg' \<and> sram2TestOffset cfg' \<le> 0x5C00"
proof (induction cs arbitrary: cfg)
  case Nil
  then show ?case by simp
next
  case (Cons c cs)
  from sram2_rotation_step [OF Cons.prems(1), of c] obtain cfg1 where
    s: "RotateTestParameters c cfg = Inr cfg1" "sram2_rotating cfg1"
     "sram2TestOffset cfg1 = keep_margin 0x400
        ((sram2TestOffset cfg + 0x1000) mod (SRAM2_SIZE - sram2TestSize cfg - 0x400))"
    by blast
  from Cons.prems(1) have "sram2_tier (sram2TestSize cfg)" by (simp add: sram2_rotating_def)
  then have "sram2TestOffset cfg1 \<le> 0x5C00" unfolding s(3) by (rule sram2_bound)
  from Cons.IH [OF s(2) this] show ?case by (simp add: s(1))
qed

text \<open>
  Claim C7.  Take a configuration with SRAM2 test size 0x2000 and SRAM2 offset 0x400
  (the defaults; the bank size 0x8000, the margin 0x400 and the stride 0x1000 are the
  constants of the code), offset rotation enabled, and no zero divisor for the other
  three banks.  Then a rotation, for any cycle counter value, returns and sets the SRAM2
  offset to 0x1400, and every further sequence of rotations, for any cycle counter
  values, returns with an SRAM2 offset of at most 0x5C00.  This holds whether or not
  the size rotation is enabled.
\<close>

theorem sram2_offset_scenario:
  assumes "sram2TestSize cfg = 0x2000" and "sram2TestOffset cfg = 0x400"
    and "rotateStartingOffsets cfg \<noteq> 0"
    and "maxFlashOffset cfg \<noteq> 0" and "maxSram1Offset cfg \<noteq> 0" and "maxCcmOffset cfg \<noteq> 0"
  shows "\<exists>cfg1. RotateTestParameters c cfg = Inr cfg1 \<and> sram2TestOffset cfg1 = 0x1400 \<and>
           (\<forall>cs. \<exists>cfg2. rotations cs cfg1 = Inr cfg2 \<and> sram2TestOffset cfg2 \<le> 0x5C00)"
proof -
  from assms have i: "sram2_rotating cfg" by (simp add: sram2_rotating_def sram2_tier_def)
  from sram2_rotation_step [OF i, of c] obtain cfg1 where
    s: "RotateTestParameters c cfg = Inr cfg1" "sram2_rotating cfg1"
     "sram2TestOffset cfg1 = keep_margin 0x400
        ((sram2TestOffset cfg + 0x1000) mod (SRAM2_SIZE - sram2TestSize cfg - 0x400))"
    by blast
  from s(3) assms(1,2) have o: "sram2TestOffset cfg1 = 0x1400"
    by (simp add: keep_margin_def SRAM2_SIZE_def)
  then have "sram2TestOffset cfg1 \<le> 0x5C00" by simp
  with sram2_rotations_bounded [OF s(2)] s(1) o show ?thesis by blast
qed

theorem sram2_offset_scenario_witness:
  "sram2TestSize InitializeDefaultConfig = 0x2000 \<and>
   sram2TestOffset InitializeDefaultConfig = 0x400 \<and>
   rotateStartingOffsets InitializeDefaultConfig \<noteq> 0 \<and>
   maxFlashOffset InitializeDefaultConfig \<noteq> 0 \<and>
   maxSram1Offset InitializeDefaultConfig \<noteq> 0 \<and>
   maxCcmOffset InitializeDefaultConfig \<noteq> 0 \<and>
   (\<exists>cfg1. RotateTestParameters 1 InitializeDefaultConfig = Inr cfg1 \<and>
      sram2TestOffset cfg1 = 0x1400 \<and>
      (\<exists>cfg2. rotations [2, 3, 4, 5, 6, 7] cfg1 = Inr cfg2 \<and>
         sram2TestOffset cfg2 \<le> 0x5C00))"
proof -
  have h: "sram2TestSize InitializeDefaultConfig = 0x2000"
    "sram2TestOffset InitializeDefaultConfig = 0x400"
    "rotateStartingOffsets InitializeDefaultConfig \<noteq> 0"
    "maxFlashOffset InitializeDefaultConfig \<noteq> 0"
    "maxSram1Offset InitializeDefaultConfig \<noteq> 0"
    "maxCcmOffset InitializeDefaultConfig \<noteq> 0"
    by (simp_all add: InitializeDefaultConfig_def max_offsets bank_sizes)
  from sram2_offset_scenario [OF h, of 1] obtain cfg1 where
    c: "RotateTestParameters 1 InitializeDefaultConfig = Inr cfg1"
       "sram2TestOffset cfg1 = 0x1400"
       "\<forall>cs. \<exists>cfg2. rotations cs cfg1 = Inr cfg2 \<and> sram2TestOffset cfg2 \<le> 0x5C00"
    by blast
  from c(3) have "\<exists>cfg2. rotations [2, 3, 4, 5, 6, 7] cfg1 = Inr cfg2 \<and>
      sram2TestOffset cfg2 \<le> 0x5C00" by (rule spec)
  with c(1,2) h show ?thesis by blast
qed


subsection \<open>Configurations without a degenerate range\<close>





section \<open>Crash recovery and persisted state\<close>

lemmas bkp_regs = RTC_BKP_DR0_def RTC_BKP_DR1_def RTC_BKP_DR2_def RTC_BKP_DR3_def
lemmas hal_defs = HAL_RTCEx_BKUPRead_def HAL_RTCEx_BKUPWrite_def HAL_UART_Transmit_def
  HAL_IWDG_Refresh_def

text \<open>
  Claim C2.  If the reset cause read at boot has the watchdog flag set, \<open>CheckForReset\<close>
  adds exactly 1 (in 32-bit arithmetic) to the reset counter register and changes no
  other backup register, and the report it sends carries the new reset count followed by
  the persisted last cycle, last operation tag and last error code, unmodified.
\<close>

theorem CheckForReset_watchdog_report:
  assumes "resetCause AND iwdgrstf \<noteq> 0"
  shows "bkp (CheckForReset iwdgrstf pinrstf resetCause s)
           = (bkp s)(RTC_BKP_DR3 := bkp s RTC_BKP_DR3 + 1) \<and>
         events (CheckForReset iwdgrstf pinrstf resetCause s)
           = events s @ [Uart (WatchdogResetReport (bkp s RTC_BKP_DR3 + 1)
                (bkp s RTC_BKP_DR1) (bkp s RTC_BKP_DR0) (bkp s RTC_BKP_DR2))]"
  using assms
  by (simp add: CheckForReset_def hal_defs bkp_regs Let_def)

lemma watchdog_flag_set: "(0x24000000::u32) AND 0x20000000 \<noteq> 0"
  by simp

theorem CheckForReset_watchdog_report_witness:
  "(0x24000000::u32) AND 0x20000000 \<noteq> 0 \<and>
   bkp (CheckForReset 0x20000000 0x04000000 0x24000000 hung_state) RTC_BKP_DR3 = 3 \<and>
   events (CheckForReset 0x20000000 0x04000000 0x24000000 hung_state)
     = [Uart (WatchdogResetReport 3 37 0x41 0x06)]"
  using CheckForReset_watchdog_report [OF watchdog_flag_set, where pinrstf = "0x04000000" and s = hung_state] watchdog_flag_set
  by (simp add: hung_state_def bkp_regs zero_regs_def)

lemma SaveTestState_bkp:
  "bkp (SaveTestState operationCode errorCode s) =
     (bkp s)(RTC_BKP_DR0 := operationCode, RTC_BKP_DR1 := testCycleCounter s,
             RTC_BKP_DR2 := errorCode)"
  by (simp add: SaveTestState_def hal_defs Let_def)

text \<open>
  Claim C3, as the specification states it, fails: the error code is cleared in normal
  operation.  After an ECC error has stored the error code 0x06, the next
  \<open>UpdateTestOperation\<close>, which every test step starts with, stores 0 in its place.
\<close>

theorem UpdateTestOperation_clears_error_code:
  "bkp (HandleECCError 0 (InitializeTests power_on_state)) RTC_BKP_DR2 = 0x06 \<and>
   bkp (UpdateTestOperation ''Flash Address Test'' (HandleECCError 0 (InitializeTests power_on_state)))
     RTC_BKP_DR2 = 0"
  by (simp add: HandleECCError_def UpdateTestOperation_def SaveTestState_bkp
      ERROR_ECC_DETECTED_def bkp_regs)

text \<open>
  Claim C3, amended.  On a clean reset (pin reset flag set, watchdog flag clear)
  \<open>CheckForReset\<close> zeroes the operation tag, the cycle and the error code and leaves
  the reset counter unchanged.  In operation every \<open>SaveTestState\<close> overwrites the three
  fields with the given tag, the current cycle and the given error code, so every
  \<open>UpdateTestOperation\<close>, which passes the error code 0, leaves the error code at zero;
  neither writes the reset counter.
\<close>

theorem persisted_fields_overwritten:
  "(resetCause AND iwdgrstf = 0 \<and> resetCause AND pinrstf \<noteq> 0 \<longrightarrow>
      bkp (CheckForReset iwdgrstf pinrstf resetCause s)
        = (bkp s)(RTC_BKP_DR0 := 0, RTC_BKP_DR1 := 0, RTC_BKP_DR2 := 0) \<and>
      bkp (CheckForReset iwdgrstf pinrstf resetCause s) RTC_BKP_DR3 = bkp s RTC_BKP_DR3) \<and>
   bkp (SaveTestState operationCode errorCode s)
     = (bkp s)(RTC_BKP_DR0 := operationCode, RTC_BKP_DR1 := testCycleCounter s,
               RTC_BKP_DR2 := errorCode) \<and>
   bkp (SaveTestState operationCode errorCode s) RTC_BKP_DR3 = bkp s RTC_BKP_DR3 \<and>
   bkp (UpdateTestOperation operation s) RTC_BKP_DR2 = 0 \<and>
   bkp (UpdateTestOperation operation s) RTC_BKP_DR3 = bkp s RTC_BKP_DR3"
  by (simp add: CheckForReset_def UpdateTestOperation_def SaveTestState_bkp hal_defs bkp_regs)

lemma clean_reset_flags: "(0x04000000::u32) AND 0x20000000 = 0 \<and> (0x04000000::u32) AND 0x04000000 \<noteq> 0"
  by simp

theorem persisted_fields_overwritten_witness:
  "(0x04000000::u32) AND 0x20000000 = 0 \<and> (0x04000000::u32) AND 0x04000000 \<noteq> 0 \<and>
   bkp (CheckForReset 0x20000000 0x04000000 0x04000000 hung_state) RTC_BKP_DR0 = 0 \<and>
   bkp (CheckForReset 0x20000000 0x04000000 0x04000000 hung_state) RTC_BKP_DR1 = 0 \<and>
   bkp (CheckForReset 0x20000000 0x04000000 0x04000000 hung_state) RTC_BKP_DR2 = 0 \<and>
   bkp (CheckForReset 0x20000000 0x04000000 0x04000000 hung_state) RTC_BKP_DR3 = 2"
  using persisted_fields_overwritten [where resetCause = "0x04000000" and iwdgrstf = "0x20000000" and pinrstf = "0x04000000" and s = hung_state] clean_reset_flags
  by (simp add: hung_state_def bkp_regs zero_regs_def)

section \<open>Scheduling of the advanced tests\<close>

lemmas mode_defs = NORMAL_TEST_CYCLE_def STRESS_TEST_CYCLE_def SRAM_ONLY_CYCLE_def
  FLASH_ONLY_CYCLE_def CACHE_ONLY_CYCLE_def

lemma extends_trans: "extends s s1 X \<Longrightarrow> extends s1 s2 Y \<Longrightarrow> extends s s2 (X @ Y)"
  by (simp add: extends_def)

lemma run_test_extends: "extends s (run_test operation calls s) (map Call calls)"
  by (simp add: extends_def run_test_def UpdateTestOperation_def SaveTestState_def hal_defs
      Let_def ERROR_NONE_def)

lemma run_tests_extends:
  "extends s (run_tests steps s) (concat (map (\<lambda>st. map Call (snd st)) steps))"
proof (induction steps arbitrary: s)
  case Nil
  then show ?case by (simp add: extends_def)
next
  case (Cons st steps)
  obtain operation calls where st: "st = (operation, calls)" by (cases st)
  from extends_trans [OF run_test_extends Cons.IH]
  show ?case by (simp add: st)
qed

lemma refresh_extends: "extends s (HAL_IWDG_Refresh s) [IwdgRefresh]"
  by (simp add: extends_def hal_defs)

lemma flash_basic_not_advanced:
  "filter advanced_test (concat (map (\<lambda>st. map Call (snd st)) (flash_basic_tests cfg))) = []"
  by (simp add: flash_basic_tests_def Let_def)

lemma all_basic_not_advanced:
  "filter advanced_test (concat (map (\<lambda>st. map Call (snd st)) (all_basic_tests cfg))) = []"
  using flash_basic_not_advanced [of cfg] by (simp add: all_basic_tests_def Let_def)

lemma sram_basic_not_advanced:
  "filter advanced_test (concat (map (\<lambda>st. map Call (snd st)) (sram_basic_tests cfg))) = []"
  by (simp add: sram_basic_tests_def Let_def)

lemma all_advanced_calls:
  "filter advanced_test (concat (map (\<lambda>st. map Call (snd st)) (all_advanced_tests cfg)))
     = advanced_calls 8 cfg"
  by (simp add: all_advanced_tests_def advanced_calls_def Let_def)

lemma sram_advanced_calls:
  "filter advanced_test (concat (map (\<lambda>st. map Call (snd st)) (sram_advanced_tests cfg)))
     = advanced_calls 4 cfg"
  by (simp add: sram_advanced_tests_def advanced_calls_def Let_def)

lemma word_mod_0_unat: "k \<noteq> 0 \<Longrightarrow> ((c::u32) mod k = 0) = (unat c mod unat k = 0)"
  by (simp add: word_unat_eq_iff unat_mod_distrib)

lemma TestAllMemoryRegions_calls:
  assumes "advancedTestInterval (testConfig s) = 10"
  shows "\<exists>s' X. TestAllMemoryRegions s = Inr s' \<and> extends s s' X \<and>
           filter advanced_test X =
             (if unat (testCycleCounter s) mod 10 = 0 then advanced_calls 8 (testConfig s)
              else [])"
proof -
  let ?cfg = "testConfig s"
  let ?s1 = "run_tests (all_basic_tests ?cfg) s"
  let ?B = "concat (map (\<lambda>st. map Call (snd st)) (all_basic_tests ?cfg))"
  let ?A = "concat (map (\<lambda>st. map Call (snd st)) (all_advanced_tests ?cfg))"
  have e1: "extends s ?s1 ?B" by (rule run_tests_extends)
  then have c1: "testCycleCounter ?s1 = testCycleCounter s" by (simp add: extends_def)
  have m: "(testCycleCounter s mod 10 = 0) = (unat (testCycleCounter s) mod 10 = 0)"
    using word_mod_0_unat [of 10 "testCycleCounter s"] by simp
  show ?thesis
  proof (cases "unat (testCycleCounter s) mod 10 = 0")
    case True
    let ?s2 = "run_tests (all_advanced_tests ?cfg) ?s1"
    have r: "TestAllMemoryRegions s = Inr (HAL_IWDG_Refresh ?s2)"
      using True m assms by (simp add: TestAllMemoryRegions_def Let_def umod_def c1)
    have e: "extends s (HAL_IWDG_Refresh ?s2) ((?B @ ?A) @ [IwdgRefresh])"
      by (rule extends_trans [OF extends_trans [OF e1 run_tests_extends] refresh_extends])
    have a: "filter advanced_test ((?B @ ?A) @ [IwdgRefresh]) = advanced_calls 8 ?cfg"
      by (simp add: all_basic_not_advanced all_advanced_calls)
    show ?thesis
      by (rule exI [of _ "HAL_IWDG_Refresh ?s2"], rule exI [of _ "(?B @ ?A) @ [IwdgRefresh]"])
        (simp only: r e a True simp_thms if_True)
  next
    case False
    have r: "TestAllMemoryRegions s = Inr (HAL_IWDG_Refresh ?s1)"
      using False m assms by (simp add: TestAllMemoryRegions_def Let_def umod_def c1)
    have e: "extends s (HAL_IWDG_Refresh ?s1) (?B @ [IwdgRefresh])"
      by (rule extends_trans [OF e1 refresh_extends])
    have a: "filter advanced_test (?B @ [IwdgRefresh]) = []"
      by (simp add: all_basic_not_advanced)
    show ?thesis
      by (rule exI [of _ "HAL_IWDG_Refresh ?s1"], rule exI [of _ "?B @ [IwdgRefresh]"])
        (simp only: r e a False simp_thms if_False)
  qed
qed

lemma TestSRAMOnly_calls:
  assumes "advancedTestInterval (testConfig s) = 10"
  shows "\<exists>s' X. TestSRAMOnly s = Inr s' \<and> extends s s' X \<and>
           filter advanced_test X =
             (if unat (testCycleCounter s) mod 5 = 0 then advanced_calls 4 (testConfig s)
              else [])"
proof -
  let ?cfg = "testConfig s"
  let ?s1 = "run_tests (sram_basic_tests ?cfg) s"
  let ?B = "concat (map (\<lambda>st. map Call (snd st)) (sram_basic_tests ?cfg))"
  let ?A = "concat (map (\<lambda>st. map Call (snd st)) (sram_advanced_tests ?cfg))"
  have e1: "extends s ?s1 ?B" by (rule run_tests_extends)
  then have c1: "testCycleCounter ?s1 = testCycleCounter s" by (simp add: extends_def)
  have h: "(10::u32) div 2 = 5" by simp
  have m: "(testCycleCounter s mod 5 = 0) = (unat (testCycleCounter s) mod 5 = 0)"
    using word_mod_0_unat [of 5 "testCycleCounter s"] by simp
  show ?thesis
  proof (cases "unat (testCycleCounter s) mod 5 = 0")
    case True
    let ?s2 = "run_tests (sram_advanced_tests ?cfg) ?s1"
    have r: "TestSRAMOnly s = Inr (HAL_IWDG_Refresh ?s2)"
      using True m assms by (simp add: TestSRAMOnly_def Let_def umod_def c1 h)
    have e: "extends s (HAL_IWDG_Refresh ?s2) ((?B @ ?A) @ [IwdgRefresh])"
      by (rule extends_trans [OF extends_trans [OF e1 run_tests_extends] refresh_extends])
    have a: "filter advanced_test ((?B @ ?A) @ [IwdgRefresh]) = advanced_calls 4 ?cfg"
      by (simp add: sram_basic_not_advanced sram_advanced_calls)
    show ?thesis
      by (rule exI [of _ "HAL_IWDG_Refresh ?s2"], rule exI [of _ "(?B @ ?A) @ [IwdgRefresh]"])
        (simp only: r e a True simp_thms if_True)
  next
    case False
    have r: "TestSRAMOnly s = Inr (HAL_IWDG_Refresh ?s1)"
      using False m assms by (simp add: TestSRAMOnly_def Let_def umod_def c1 h)
    have e: "extends s (HAL_IWDG_Refresh ?s1) (?B @ [IwdgRefresh])"
      by (rule extends_trans [OF e1 refresh_extends])
    have a: "filter advanced_test (?B @ [IwdgRefresh]) = []"
      by (simp add: sram_basic_not_advanced)
    show ?thesis
      by (rule exI [of _ "HAL_IWDG_Refresh ?s1"], rule exI [of _ "?B @ [IwdgRefresh]"])
        (simp only: r e a False simp_thms if_False)
  qed
qed

lemma TestFlashOnly_calls:
  "\<exists>s' X. TestFlashOnly s = Inr s' \<and> extends s s' X \<and> filter advanced_test X = []"
proof -
  let ?s1 = "run_tests (flash_basic_tests (testConfig s)) s"
  let ?B = "concat (map (\<lambda>st. map Call (snd st)) (flash_basic_tests (testConfig s)))"
  have e: "extends s (HAL_IWDG_Refresh ?s1) (?B @ [IwdgRefresh])"
    by (rule extends_trans [OF run_tests_extends refresh_extends])
  have a: "filter advanced_test (?B @ [IwdgRefresh]) = []"
    by (simp add: flash_basic_not_advanced)
  show ?thesis
    by (rule exI [of _ "HAL_IWDG_Refresh ?s1"], rule exI [of _ "?B @ [IwdgRefresh]"])
      (simp only: TestFlashOnly_def e a simp_thms)
qed

lemma cache_loop_calls:
  "\<exists>X. extends s (cache_loop n s) X \<and> filter advanced_test X = []"
proof (induction n arbitrary: s)
  case 0
  then show ?case by (simp add: extends_def)
next
  case (Suc n)
  let ?s1 = "HAL_IWDG_Refresh (run_test ''Flash Cache Test'' [CacheTest] s)"
  have e: "extends s ?s1 (map Call [CacheTest] @ [IwdgRefresh])"
    by (rule extends_trans [OF run_test_extends refresh_extends])
  from Suc.IH [of ?s1] obtain X where
    X: "extends ?s1 (cache_loop n ?s1) X" "filter advanced_test X = []"
    by blast
  from extends_trans [OF e X(1)] X(2) show ?case
    by (intro exI [of _ "(map Call [CacheTest] @ [IwdgRefresh]) @ X"]) simp
qed

lemma TestCacheOnly_calls:
  "\<exists>s' X. TestCacheOnly s = Inr s' \<and> extends s s' X \<and> filter advanced_test X = []"
proof -
  from cache_loop_calls [of s 5] obtain X where
    X: "extends s (cache_loop 5 s) X" "filter advanced_test X = []" by blast
  show ?thesis
    by (rule exI [of _ "cache_loop 5 s"], rule exI [of _ X])
      (simp only: TestCacheOnly_def X simp_thms)
qed

lemma rotate_sizes_interval:
  "advancedTestInterval (rotate_sizes c cfg) = advancedTestInterval cfg"
  by (simp add: rotate_sizes_def Let_def)

lemma rotation_defined_Inr:
  assumes "rotation_defined cfg"
  shows "\<exists>cfg'. RotateTestParameters c cfg = Inr cfg' \<and>
           advancedTestInterval cfg' = advancedTestInterval cfg"
proof (cases "rotateStartingOffsets cfg = 0")
  case True
  then show ?thesis by (simp add: RotateTestParameters_def rotate_sizes_interval)
next
  case False
  with assms have "divisors_nonzero cfg" by (simp add: rotation_defined_def)
  with False show ?thesis
    by (simp add: RotateTestParameters_def rotate_offsets_Inr rotate_sizes_interval)
qed

lemma rotation_undefined_Inl:
  assumes "\<not> rotation_defined cfg"
  shows "RotateTestParameters c cfg = Inl DivisionByZero"
  using assms
  by (simp add: rotation_defined_def RotateTestParameters_def rotate_offsets_Inl)

lemma run_current_mode_calls:
  assumes "advancedTestInterval (testConfig s) = 10"
  shows "\<exists>s' X. run_current_mode s = Inr s' \<and> extends s s' X \<and>
     filter advanced_test X =
       advanced_schedule (currentTestMode s) (testCycleCounter s) (testConfig s)"
proof -
  consider (sram) "currentTestMode s = SRAM_ONLY_CYCLE"
    | (flash) "currentTestMode s = FLASH_ONLY_CYCLE"
    | (cache) "currentTestMode s = CACHE_ONLY_CYCLE"
    | (all) "currentTestMode s \<noteq> SRAM_ONLY_CYCLE" "currentTestMode s \<noteq> FLASH_ONLY_CYCLE"
        "currentTestMode s \<noteq> CACHE_ONLY_CYCLE"
    by blast
  then show ?thesis
  proof cases
    case sram
    with TestSRAMOnly_calls [OF assms] show ?thesis
      by (simp add: run_current_mode_def advanced_schedule_def mode_defs)
  next
    case flash
    with TestFlashOnly_calls [of s] show ?thesis
      by (simp add: run_current_mode_def advanced_schedule_def mode_defs)
  next
    case cache
    with TestCacheOnly_calls [of s] show ?thesis
      by (simp add: run_current_mode_def advanced_schedule_def mode_defs)
  next
    case all
    with TestAllMemoryRegions_calls [OF assms] show ?thesis
      by (simp add: run_current_mode_def advanced_schedule_def)
  qed
qed

lemma MainTestCycle_calls:
  assumes "advancedTestInterval (testConfig s) = 10" and "rotation_defined (testConfig s)"
  shows "\<exists>s'. MainTestCycle tick1 tick2 s = Inr s' \<and>
           testCycleCounter s' = testCycleCounter s + 1 \<and>
           RotateTestParameters (testCycleCounter s + 1) (testConfig s) = Inr (testConfig s') \<and>
           filter advanced_test (cycle_events s (Inr s')) =
             advanced_schedule (currentTestMode s) (testCycleCounter s + 1) (testConfig s')"
proof -
  let ?c = "testCycleCounter s + 1"
  from rotation_defined_Inr [OF assms(2), of ?c] assms(1) obtain cfg where
    cfg: "RotateTestParameters ?c (testConfig s) = Inr cfg" "advancedTestInterval cfg = 10"
    by auto
  define s3 where "s3 = config_report_if_due (s\<lparr>testCycleCounter := ?c, testConfig := cfg\<rparr>)"
  define X0 where "X0 = (if ?c mod 20 = 0 then [Uart (ConfigStatusReport cfg)] else [])"
  have s3: "events s3 = events s @ X0" "testCycleCounter s3 = ?c" "testConfig s3 = cfg"
    "currentTestMode s3 = currentTestMode s"
    by (simp_all add: s3_def X0_def config_report_if_due_def ReportConfigStatus_def hal_defs)
  from run_current_mode_calls [of s3] cfg(2) s3 obtain s4 X where
    d: "run_current_mode s3 = Inr s4"
     and e: "extends s3 s4 X"
     and a: "filter advanced_test X = advanced_schedule (currentTestMode s) ?c cfg"
    by auto
  define s5 where "s5 = status_report_if_due tick1 tick2 s4"
  define X5 where "X5 = (if tick1 - lastReportTime s4 \<ge> reportIntervalMs (testConfig s4)
     then [Uart TestStatusReport] else [])"
  have s5: "events s5 = events s4 @ X5" "testCycleCounter s5 = testCycleCounter s4"
    "testConfig s5 = testConfig s4"
    by (simp_all add: s5_def X5_def status_report_if_due_def ReportTestStatus_def hal_defs)
  have M: "MainTestCycle tick1 tick2 s = Inr (HAL_IWDG_Refresh s5)"
    using cfg(1) d by (simp add: MainTestCycle_def Let_def s3_def s5_def)
  have ev: "events (HAL_IWDG_Refresh s5) = events s @ (X0 @ X @ X5 @ [IwdgRefresh])"
    using s5 s3 e by (simp add: hal_defs extends_def)
  have cnt: "testCycleCounter (HAL_IWDG_Refresh s5) = ?c"
    using s5 s3 e by (simp add: hal_defs extends_def)
  have tc: "testConfig (HAL_IWDG_Refresh s5) = cfg"
    using s5 s3 e by (simp add: hal_defs extends_def)
  have "filter advanced_test (cycle_events s (Inr (HAL_IWDG_Refresh s5)))
          = filter advanced_test X"
    by (simp add: cycle_events_def ev X0_def X5_def)
  with M cnt tc a cfg(1) show ?thesis by simp
qed

lemma list_ex_filter: "list_ex P xs \<longleftrightarrow> filter P xs \<noteq> []"
  by (induction xs) simp_all

lemma advanced_schedule_due:
  "advanced_schedule mode cycle cfg \<noteq> [] \<longleftrightarrow> advanced_due mode cycle"
  by (simp add: advanced_schedule_def advanced_due_def advanced_calls_def)

lemma MainTestCycle_adv:
  assumes "advancedTestInterval (testConfig s) = 10" and "rotation_defined (testConfig s)"
  shows "\<exists>s'. MainTestCycle tick1 tick2 s = Inr s' \<and>
           testCycleCounter s' = testCycleCounter s + 1 \<and>
           (advanced_tests_ran s (Inr s') \<longleftrightarrow>
              advanced_due (currentTestMode s) (testCycleCounter s + 1))"
proof -
  from MainTestCycle_calls [OF assms, of tick1 tick2] obtain s' where
    s': "MainTestCycle tick1 tick2 s = Inr s'" "testCycleCounter s' = testCycleCounter s + 1"
      "filter advanced_test (cycle_events s (Inr s')) =
         advanced_schedule (currentTestMode s) (testCycleCounter s + 1) (testConfig s')"
    by blast
  from s'(3) have "advanced_tests_ran s (Inr s') \<longleftrightarrow>
      advanced_due (currentTestMode s) (testCycleCounter s + 1)"
    by (simp add: advanced_tests_ran_def list_ex_filter advanced_schedule_due)
  with s'(1,2) show ?thesis by blast
qed

text \<open>
  Claim C4, amended.  Take an advanced test interval of 10.  If the rotation of the
  cycle meets a zero divisor, \<open>MainTestCycle\<close> stops there with a division by zero.
  Otherwise it returns with the cycle counter incremented and the configuration
  rotated, and the advanced test calls of the cycle are the following.  In SRAM-only
  mode, where the interval is halved: when the new counter value is a multiple of 5,
  March C on a quarter of the SRAM1 window, then walking ones and walking zeros on a
  quarter of the SRAM2 window, each once; on every other cycle none.  In Flash-only and
  cache-only mode: none, on every cycle.  In every other mode (normal, stress and any
  unknown mode value): when the new counter value is a multiple of 10, March C on an
  eighth of the SRAM1 window, then walking ones and walking zeros on an eighth of the
  SRAM2 window, each once; on every other cycle none.
\<close>

theorem advanced_tests_schedule:
  assumes "advancedTestInterval (testConfig s) = 10"
  shows "if rotation_defined (testConfig s) then
           \<exists>s'. MainTestCycle tick1 tick2 s = Inr s' \<and>
             testCycleCounter s' = testCycleCounter s + 1 \<and>
             RotateTestParameters (testCycleCounter s + 1) (testConfig s)
               = Inr (testConfig s') \<and>
             filter advanced_test (cycle_events s (Inr s')) =
               (if currentTestMode s = SRAM_ONLY_CYCLE then
                  (if unat (testCycleCounter s') mod 5 = 0 then
                     [Call (MarchCTest (GetSRAM1TestStart (testConfig s'))
                              (sram1TestSize (testConfig s') div 4)),
                      Call (WalkingOnesTest (GetSRAM2TestStart (testConfig s'))
                              (sram2TestSize (testConfig s') div 4)),
                      Call (WalkingZerosTest (GetSRAM2TestStart (testConfig s'))
                              (sram2TestSize (testConfig s') div 4))]
                   else [])
                else if currentTestMode s = FLASH_ONLY_CYCLE \<or>
                        currentTestMode s = CACHE_ONLY_CYCLE then []
                else
                  (if unat (testCycleCounter s') mod 10 = 0 then
                     [Call (MarchCTest (GetSRAM1TestStart (testConfig s'))
                              (sram1TestSize (testConfig s') div 8)),
                      Call (WalkingOnesTest (GetSRAM2TestStart (testConfig s'))
                              (sram2TestSize (testConfig s') div 8)),
                      Call (WalkingZerosTest (GetSRAM2TestStart (testConfig s'))
                              (sram2TestSize (testConfig s') div 8))]
                   else []))
         else MainTestCycle tick1 tick2 s = Inl DivisionByZero"
proof (cases "rotation_defined (testConfig s)")
  case True
  from MainTestCycle_calls [OF assms True, of tick1 tick2] obtain s' where
    s': "MainTestCycle tick1 tick2 s = Inr s'" "testCycleCounter s' = testCycleCounter s + 1"
      "RotateTestParameters (testCycleCounter s + 1) (testConfig s) = Inr (testConfig s')"
      "filter advanced_test (cycle_events s (Inr s')) =
         advanced_schedule (currentTestMode s) (testCycleCounter s + 1) (testConfig s')"
    by blast
  show ?thesis
    unfolding if_P [OF True]
    by (rule exI [of _ s'])
      (simp add: s' advanced_schedule_def advanced_calls_def)
next
  case False
  then show ?thesis
    by (simp add: MainTestCycle_def Let_def rotation_undefined_Inl)
qed

lemma example_state_facts:
  "advancedTestInterval (testConfig sram_only_state) = 10"
  "rotation_defined (testConfig sram_only_state)"
  "currentTestMode sram_only_state = SRAM_ONLY_CYCLE"
  "testCycleCounter sram_only_state = 4"
  "advancedTestInterval (testConfig flash_only_state) = 10"
  "rotation_defined (testConfig flash_only_state)"
  "currentTestMode flash_only_state = FLASH_ONLY_CYCLE"
  "testCycleCounter flash_only_state = 9"
  "advancedTestInterval (testConfig normal_state) = 10"
  "rotation_defined (testConfig normal_state)"
  "currentTestMode normal_state = NORMAL_TEST_CYCLE"
  "testCycleCounter normal_state = 9"
  "testConfig normal_state = InitializeDefaultConfig"
  by (simp_all add: sram_only_state_def flash_only_state_def normal_state_def
      InitializeTests_def ReportConfigStatus_def hal_defs config_after_four_cycles_def
      InitializeDefaultConfig_def rotation_defined_def divisors_nonzero_def max_offsets
      bank_sizes)

text \<open>
  Claim C4, as the specification states it, fails.  With an advanced test interval of
  10, the cycle that takes the counter from 4 to 5 in SRAM-only mode runs the advanced
  tests, and the cycle that takes it from 9 to 10 in Flash-only mode does not.
\<close>

theorem advanced_tests_depend_on_mode:
  "advancedTestInterval (testConfig sram_only_state) = 10 \<and>
   map_sum id testCycleCounter (MainTestCycle 0 0 sram_only_state) = Inr 5 \<and>
   advanced_tests_ran sram_only_state (MainTestCycle 0 0 sram_only_state) \<and>
   advancedTestInterval (testConfig flash_only_state) = 10 \<and>
   map_sum id testCycleCounter (MainTestCycle 0 0 flash_only_state) = Inr 10 \<and>
   \<not> advanced_tests_ran flash_only_state (MainTestCycle 0 0 flash_only_state)"
proof -
  from MainTestCycle_adv [OF example_state_facts(1,2), of 0 0] obtain s1 where
    s1: "MainTestCycle 0 0 sram_only_state = Inr s1" "testCycleCounter s1 = 5"
      "advanced_tests_ran sram_only_state (Inr s1)"
    by (auto simp add: example_state_facts advanced_due_def)
  from MainTestCycle_adv [OF example_state_facts(5,6), of 0 0] obtain s2 where
    s2: "MainTestCycle 0 0 flash_only_state = Inr s2" "testCycleCounter s2 = 10"
      "\<not> advanced_tests_ran flash_only_state (Inr s2)"
    by (auto simp add: example_state_facts advanced_due_def mode_defs)
  from s1 s2 show ?thesis by (simp add: example_state_facts)
qed

lemma default_rotation_ten:
  "RotateTestParameters 10 InitializeDefaultConfig =
     Inr (InitializeDefaultConfig\<lparr> flashTestSize := 0x20000, sram1TestSize := 0x10000,
       sram2TestSize := 0x6000, ccmTestSize := 0x6000,
       flashTestOffset := 0x30000, sram1TestOffset := 0x6000,
       sram2TestOffset := 0x1400, ccmTestOffset := 0x1400 \<rparr>)"
  by (simp add: rotation_defs InitializeDefaultConfig_def)

theorem advanced_tests_schedule_witness:
  "advancedTestInterval (testConfig normal_state) = 10 \<and>
   rotation_defined (testConfig normal_state) \<and>
   map_sum id testCycleCounter (MainTestCycle 0 0 normal_state) = Inr 10 \<and>
   filter advanced_test (cycle_events normal_state (MainTestCycle 0 0 normal_state)) =
     [Call (MarchCTest 0x20006000 0x2000),
      Call (WalkingOnesTest 0x20019400 0xC00),
      Call (WalkingZerosTest 0x20019400 0xC00)]"
proof -
  from advanced_tests_schedule [OF example_state_facts(9), of 0 0] example_state_facts(10)
  obtain s1 where
    s1: "MainTestCycle 0 0 normal_state = Inr s1" "testCycleCounter s1 = 10"
      "RotateTestParameters 10 (testConfig normal_state) = Inr (testConfig s1)"
      "filter advanced_test (cycle_events normal_state (Inr s1)) =
         [Call (MarchCTest (GetSRAM1TestStart (testConfig s1))
                  (sram1TestSize (testConfig s1) div 8)),
          Call (WalkingOnesTest (GetSRAM2TestStart (testConfig s1))
                  (sram2TestSize (testConfig s1) div 8)),
          Call (WalkingZerosTest (GetSRAM2TestStart (testConfig s1))
                  (sram2TestSize (testConfig s1) div 8))]"
    by (auto simp add: example_state_facts mode_defs)
  from s1(3) have c: "testConfig s1 = InitializeDefaultConfig\<lparr> flashTestSize := 0x20000,
       sram1TestSize := 0x10000, sram2TestSize := 0x6000, ccmTestSize := 0x6000,
       flashTestOffset := 0x30000, sram1TestOffset := 0x6000,
       sram2TestOffset := 0x1400, ccmTestOffset := 0x1400 \<rparr>"
    by (simp add: example_state_facts(13) default_rotation_ten)
  have "filter advanced_test (cycle_events normal_state (Inr s1)) =
     [Call (MarchCTest 0x20006000 0x2000),
      Call (WalkingOnesTest 0x20019400 0xC00),
      Call (WalkingZerosTest 0x20019400 0xC00)]"
    unfolding s1(4) c
    by (simp add: InitializeDefaultConfig_def GetSRAM1TestStart_def GetSRAM2TestStart_def
        SRAM1_START_ADDR_def SRAM2_START_ADDR_def)
  with s1(1,2) example_state_facts(9,10) show ?thesis by simp
qed


section \<open>Window of the enhanced butterfly test\<close>

lemma in_window_mod: "wsize \<noteq> 0 \<Longrightarrow> in_window startAddr wsize (startAddr + a mod wsize)"
  by (simp add: in_window_def word_mod_less_divisor word_greater_zero_iff)

lemma in_window_inside:
  assumes "\<not> a < startAddr" and "\<not> a \<ge> startAddr + wsize"
  shows "in_window startAddr wsize a"
proof -
  from assms(1) have le: "startAddr \<le> a" by simp
  then have S: "unat startAddr \<le> unat a" by (simp add: word_le_nat_alt)
  from assms(2) have "a < startAddr + wsize" by simp
  then have A: "unat a < (unat startAddr + unat wsize) mod 2 ^ 32"
    by (simp add: word_less_nat_alt unat_word_ariths)
  have nowrap: "unat startAddr + unat wsize < 2 ^ 32"
  proof (rule ccontr)
    assume "\<not> unat startAddr + unat wsize < 2 ^ 32"
    then have ge: "2 ^ 32 \<le> unat startAddr + unat wsize" by simp
    have "unat wsize < 2 ^ 32" using unsigned_less [of wsize] by simp
    moreover have "unat startAddr < 2 ^ 32" using unsigned_less [of startAddr] by simp
    ultimately have "(unat startAddr + unat wsize) mod 2 ^ 32 = unat startAddr + unat wsize - 2 ^ 32"
      using ge by (simp add: mod_if)
    with A S \<open>unat wsize < 2 ^ 32\<close> show False by simp
  qed
  with A have "unat a < unat startAddr + unat wsize" by simp
  with S have "unat a - unat startAddr < unat wsize" by simp
  with le show ?thesis by (simp add: in_window_def word_less_nat_alt unat_sub)
qed

lemma map_into_window_ok:
  assumes "wsize \<noteq> 0"
  shows "\<exists>a'. map_into_window startAddr wsize a = Inr a' \<and> in_window startAddr wsize a'"
proof (cases "a < startAddr \<or> a \<ge> startAddr + wsize")
  case True
  with assms show ?thesis
    by (simp add: map_into_window_def umod_def in_window_mod)
next
  case False
  then have "in_window startAddr wsize a" by (simp add: in_window_inside)
  with False show ?thesis by (simp add: map_into_window_def)
qed

lemma in_window_interval:
  assumes "in_window startAddr wsize a" and "unat startAddr + unat wsize \<le> 2 ^ 32"
  shows "unat startAddr \<le> unat a \<and> unat a < unat startAddr + unat wsize"
proof (cases "startAddr \<le> a")
  case True
  with assms(1) show ?thesis
    by (simp add: in_window_def word_less_nat_alt word_le_nat_alt unat_sub)
next
  case False
  then have lt: "unat a < unat startAddr" by (simp add: word_le_nat_alt)
  then have "unat (a - startAddr) = unat a + 2 ^ 32 - unat startAddr"
    by (simp add: unat_sub_if_size word_size)
  with assms(1) have "unat a + 2 ^ 32 - unat startAddr < unat wsize"
    by (simp add: in_window_def word_less_nat_alt)
  with assms(2) lt show ?thesis by simp
qed

lemma for_each_append:
  "for_each body (xs @ ys) s = bindE (for_each body xs s) (for_each body ys)"
  by (induction xs arbitrary: s) (auto simp add: bindE_def split: sum.splits)

lemma for_each_upt:
  assumes "I 0 s"
    and "\<And>i s. i < n \<Longrightarrow> I i s \<Longrightarrow> \<exists>s'. body i s = Inr s' \<and> I (Suc i) s'"
  shows "\<exists>s'. for_each body [0..<n] s = Inr s' \<and> I n s'"
  using assms(2)
proof (induction n)
  case 0
  with assms(1) show ?case by simp
next
  case (Suc n)
  from Suc.IH Suc.prems obtain s1 where
    s1: "for_each body [0..<n] s = Inr s1" "I n s1" by (meson less_Suc_eq)
  from Suc.prems [of n s1] s1(2) obtain s2 where
    s2: "body n s1 = Inr s2" "I (Suc n) s2" by auto
  then show ?case by (simp add: for_each_append s1(1))
qed

lemma takeWhile_upt_bound:
  "takeWhile (\<lambda>i. i + k < m) [0..<n] = [0..<min n (m - k)]"
proof (induction n)
  case 0
  then show ?case by simp
next
  case (Suc n)
  show ?case
  proof (cases "n + k < m")
    case True
    then have "\<forall>i\<in>set [0..<n]. i + k < m" by auto
    with True show ?thesis by (simp add: min_def)
  next
    case False
    then have "min (Suc n) (m - k) = min n (m - k)" by simp
    moreover have "takeWhile (\<lambda>i. i + k < m) ([0..<n] @ [n]) = takeWhile (\<lambda>i. i + k < m) [0..<n]"
    proof (cases "\<forall>i\<in>set [0..<n]. i + k < m")
      case True
      then have all: "\<And>i. i \<in> set [0..<n] \<Longrightarrow> i + k < m" by blast
      have e1: "takeWhile (\<lambda>i. i + k < m) ([0..<n] @ [n]) = [0..<n] @ takeWhile (\<lambda>i. i + k < m) [n]"
        by (rule takeWhile_append2) (rule all)
      have e2: "takeWhile (\<lambda>i. i + k < m) [0..<n] = [0..<n]"
        by (rule takeWhile_eq_all_conv [THEN iffD2]) (use all in blast)
      have e3: "takeWhile (\<lambda>i. i + k < m) [n] = []"
        using False by simp
      show ?thesis unfolding e1 e2 e3 by simp
    next
      case False
      then obtain i where "i \<in> set [0..<n]" "\<not> i + k < m" by blast
      then show ?thesis by simp
    qed
    ultimately show ?thesis using Suc.IH by simp
  qed
qed

lemma spanning_pair_ok:
  assumes "wsize \<noteq> 0" and "totalSize \<noteq> 0" and "numPairs \<noteq> 0"
  shows "\<exists>a0 a1. spanning_pair startAddr wsize totalSize numPairs baseAddr rotationOffset i pairs
            = Inr (pairs(i := (a0, a1))) \<and>
          in_window startAddr wsize a0 \<and> in_window startAddr wsize a1"
proof -
  let ?q = "totalSize div numPairs"
  let ?pos1 = "(rotationOffset + of_nat i * ?q) mod totalSize"
  let ?pos2 = "(rotationOffset + (of_nat i * ?q + totalSize div 2)) mod totalSize"
  from map_into_window_ok [OF assms(1), of startAddr "baseAddr + ?pos1"] obtain a0 where
    a0: "map_into_window startAddr wsize (baseAddr + ?pos1) = Inr a0" "in_window startAddr wsize a0"
    by blast
  from map_into_window_ok [OF assms(1), of startAddr "baseAddr + ?pos2"] obtain a1 where
    a1: "map_into_window startAddr wsize (baseAddr + ?pos2) = Inr a1" "in_window startAddr wsize a1"
    by blast
  have "spanning_pair startAddr wsize totalSize numPairs baseAddr rotationOffset i pairs
            = Inr (pairs(i := (a0, a1)))"
    using assms(2,3) by (simp add: spanning_pair_def udiv_def umod_def a0(1) a1(1))
  with a0(2) a1(2) show ?thesis by blast
qed

lemma power_of_two_pair_ok:
  assumes "wsize \<noteq> 0" and "totalSize \<noteq> 0"
  shows "\<exists>a0 a1. power_of_two_pair startAddr wsize totalSize numPairs baseAddr rotationOffset i pairs
            = Inr (pairs(unat numPairs + i := (a0, a1))) \<and>
          in_window startAddr wsize a0 \<and> in_window startAddr wsize a1"
proof -
  define bitPosition :: u32 where "bitPosition =
    (if push_bit (i + 2) 1 \<ge> totalSize then totalSize div 2 else push_bit (i + 2) 1)"
  let ?pos1 = "rotationOffset mod totalSize"
  let ?pos2 = "(rotationOffset + bitPosition) mod totalSize"
  from map_into_window_ok [OF assms(1), of startAddr "baseAddr + ?pos1"] obtain a0 where
    a0: "map_into_window startAddr wsize (baseAddr + ?pos1) = Inr a0" "in_window startAddr wsize a0"
    by blast
  from map_into_window_ok [OF assms(1), of startAddr "baseAddr + ?pos2"] obtain a1 where
    a1: "map_into_window startAddr wsize (baseAddr + ?pos2) = Inr a1" "in_window startAddr wsize a1"
    by blast
  have "power_of_two_pair startAddr wsize totalSize numPairs baseAddr rotationOffset i pairs
            = Inr (pairs(unat numPairs + i := (a0, a1)))"
    using assms(2) a0(1) a1(1) unfolding power_of_two_pair_def Let_def bitPosition_def [symmetric]
    by (simp add: umod_def)
  with a0(2) a1(2) show ?thesis by blast
qed


lemma store32_in_window:
  "accesses_in_window startAddr wsize st \<Longrightarrow> in_window startAddr wsize a \<Longrightarrow>
     accesses_in_window startAddr wsize (store32 wr a v st)"
  by (simp add: accesses_in_window_def store32_def)

lemma verify_reported_in_window:
  "accesses_in_window startAddr wsize st \<Longrightarrow> in_window startAddr wsize a \<Longrightarrow>
     accesses_in_window startAddr wsize (verify_reported rd a expected st)"
  by (simp add: accesses_in_window_def verify_reported_def load32_def Let_def)

lemma verify_counted_in_window:
  "accesses_in_window startAddr wsize st \<Longrightarrow> in_window startAddr wsize a \<Longrightarrow>
     accesses_in_window startAddr wsize (verify_counted rd a expected st)"
  by (simp add: accesses_in_window_def verify_counted_def load32_def Let_def)

lemma test_pair_in_window:
  assumes "accesses_in_window startAddr wsize st" and "pair_in_window startAddr wsize p"
  shows "accesses_in_window startAddr wsize (test_pair wr rd cycle i p st)"
proof -
  from assms(2) have p: "in_window startAddr wsize (fst p)" "in_window startAddr wsize (snd p)"
    by (simp_all add: pair_in_window_def)
  show ?thesis
    unfolding test_pair_def Let_def
    by (intro store32_in_window verify_reported_in_window verify_counted_in_window assms(1) p)
qed

lemma clamped_pairs:
  fixes n :: u32
  defines "numPairs \<equiv> (if n > 32 then 32 else n)"
  shows "unat numPairs \<le> 32"
    and "unat (if numPairs + 5 \<le> 32 then numPairs + 5 else 32)
           = unat numPairs + min 5 (32 - unat numPairs)"
proof -
  have le: "numPairs \<le> 32" by (simp add: numPairs_def linorder_not_less)
  then show b: "unat numPairs \<le> 32" by (simp add: word_le_nat_alt)
  then have u: "unat (numPairs + 5) = unat numPairs + 5"
    by (simp add: unat_word_ariths)
  show "unat (if numPairs + 5 \<le> 32 then numPairs + 5 else 32)
           = unat numPairs + min 5 (32 - unat numPairs)"
    using b u by (auto simp add: word_le_nat_alt min_def)
qed

text \<open>
  The addresses of the accesses.  For every call of the enhanced butterfly test with a
  window size above zero, whatever the memory does, the configured number of pairs, the
  cycle counter and the initial content of the pair array are: if the bank size
  \<open>totalSize\<close> is zero the first statement divides by zero before any access;
  otherwise the call returns and the address of every 32-bit load and store it made
  lies within the window, that is, its distance from \<open>startAddr\<close> is below the window
  size.  This bounds the address each access is made at, not the four bytes it covers.
\<close>

lemma RunEnhancedButterflyTest_operand_addresses:
  assumes "wsize \<noteq> 0"
  shows "if totalSize = 0
         then RunEnhancedButterflyTest wr rd cfg cycle pairs0 startAddr wsize totalSize m
                = Inl DivisionByZero
         else \<exists>st. RunEnhancedButterflyTest wr rd cfg cycle pairs0 startAddr wsize totalSize m
                = Inr st \<and>
              list_all (\<lambda>a. in_window startAddr wsize (access_addr a)) (accesses st) \<and>
              (unat startAddr + unat wsize \<le> 2 ^ 32 \<longrightarrow>
                 list_all (\<lambda>a. unat startAddr \<le> unat (access_addr a) \<and>
                               unat (access_addr a) < unat startAddr + unat wsize)
                   (accesses st))"
proof (cases "totalSize = 0")
  case True
  then show ?thesis by (simp add: RunEnhancedButterflyTest_def umod_def)
next
  case False
  define baseAddr where "baseAddr = startAddr - startAddr mod totalSize"
  define numPairs where "numPairs = (if numButterflyPairs cfg > 32 then 32 else numButterflyPairs cfg)"
  define rotationOffset where "rotationOffset = (cycle * 19) mod totalSize"
  define np where "np = unat numPairs"
  define k where "k = min 5 (32 - np)"
  define st0 :: "'a bfly_state" where "st0 = \<lparr> mem = m, accesses = [], errors = 0, uart_out = [] \<rparr>"
  have np32: "np \<le> 32"
    unfolding np_def numPairs_def by (rule clamped_pairs(1))
  have n': "unat (if numPairs + 5 \<le> 32 then numPairs + 5 else 32) = np + k"
    unfolding np_def k_def numPairs_def by (rule clamped_pairs(2))
  have tw: "takeWhile (\<lambda>i. i + np < 32) [0..<5] = [0..<k]"
    unfolding k_def by (rule takeWhile_upt_bound)
  have "\<exists>pairs1. for_each (spanning_pair startAddr wsize totalSize numPairs baseAddr rotationOffset)
           [0..<np] pairs0 = Inr pairs1 \<and> (\<forall>j<np. pair_in_window startAddr wsize (pairs1 j))"
  proof (rule for_each_upt [where I = "\<lambda>i pairs. \<forall>j<i. pair_in_window startAddr wsize (pairs j)"])
    show "\<forall>j<0. pair_in_window startAddr wsize (pairs0 j)" by simp
  next
    fix i pairs
    assume i: "i < np" and I: "\<forall>j<i. pair_in_window startAddr wsize (pairs j)"
    from i have "numPairs \<noteq> 0" by (auto simp add: np_def)
    from spanning_pair_ok [OF assms False this, of startAddr baseAddr rotationOffset i pairs]
    obtain a0 a1 where
      sp: "spanning_pair startAddr wsize totalSize numPairs baseAddr rotationOffset i pairs
            = Inr (pairs(i := (a0, a1)))"
        "in_window startAddr wsize a0" "in_window startAddr wsize a1"
      by blast
    have "\<forall>j<Suc i. pair_in_window startAddr wsize ((pairs(i := (a0, a1))) j)"
      using I sp(2,3) by (simp add: pair_in_window_def less_Suc_eq)
    with sp(1) show "\<exists>s'. spanning_pair startAddr wsize totalSize numPairs baseAddr rotationOffset i pairs
            = Inr s' \<and> (\<forall>j<Suc i. pair_in_window startAddr wsize (s' j))"
      by simp
  qed
  then obtain pairs1 where
    l1: "for_each (spanning_pair startAddr wsize totalSize numPairs baseAddr rotationOffset)
           [0..<np] pairs0 = Inr pairs1"
    and i1: "\<forall>j<np. pair_in_window startAddr wsize (pairs1 j)"
    by blast
  have "\<exists>pairs2. for_each (power_of_two_pair startAddr wsize totalSize numPairs baseAddr rotationOffset)
           [0..<k] pairs1 = Inr pairs2 \<and> (\<forall>j<np + k. pair_in_window startAddr wsize (pairs2 j))"
  proof (rule for_each_upt [where I = "\<lambda>i pairs. \<forall>j<np + i. pair_in_window startAddr wsize (pairs j)"])
    show "\<forall>j<np + 0. pair_in_window startAddr wsize (pairs1 j)" using i1 by simp
  next
    fix i pairs
    assume I: "\<forall>j<np + i. pair_in_window startAddr wsize (pairs j)"
    from power_of_two_pair_ok [OF assms False, of startAddr numPairs baseAddr rotationOffset i pairs]
    obtain a0 a1 where
      sp: "power_of_two_pair startAddr wsize totalSize numPairs baseAddr rotationOffset i pairs
            = Inr (pairs(np + i := (a0, a1)))"
        "in_window startAddr wsize a0" "in_window startAddr wsize a1"
      unfolding np_def by blast
    have "\<forall>j<np + Suc i. pair_in_window startAddr wsize ((pairs(np + i := (a0, a1))) j)"
      using I sp(2,3) by (simp add: pair_in_window_def less_Suc_eq)
    with sp(1) show "\<exists>s'. power_of_two_pair startAddr wsize totalSize numPairs baseAddr rotationOffset i pairs
            = Inr s' \<and> (\<forall>j<np + Suc i. pair_in_window startAddr wsize (s' j))"
      by simp
  qed
  then obtain pairs2 where
    l2: "for_each (power_of_two_pair startAddr wsize totalSize numPairs baseAddr rotationOffset)
           [0..<k] pairs1 = Inr pairs2"
    and i2: "\<forall>j<np + k. pair_in_window startAddr wsize (pairs2 j)"
    by blast
  have "\<exists>st. for_each (\<lambda>i st. Inr (test_pair wr rd cycle i (pairs2 i) st)) [0..<np + k] st0 = Inr st \<and>
          accesses_in_window startAddr wsize st"
  proof (rule for_each_upt [where I = "\<lambda>i st. accesses_in_window startAddr wsize st"])
    show "accesses_in_window startAddr wsize st0"
      by (simp add: accesses_in_window_def st0_def)
  next
    fix i and st :: "'a bfly_state"
    assume "i < np + k" and "accesses_in_window startAddr wsize st"
    with i2 have "accesses_in_window startAddr wsize (test_pair wr rd cycle i (pairs2 i) st)"
      by (simp add: test_pair_in_window)
    then show "\<exists>s'. Inr (test_pair wr rd cycle i (pairs2 i) st) = Inr s' \<and>
         accesses_in_window startAddr wsize s'" by simp
  qed
  then obtain st where
    l3: "for_each (\<lambda>i st. Inr (test_pair wr rd cycle i (pairs2 i) st)) [0..<np + k] st0 = Inr st"
    and i3: "accesses_in_window startAddr wsize st"
    by blast
  have R: "RunEnhancedButterflyTest wr rd cfg cycle pairs0 startAddr wsize totalSize m = Inr st"
    unfolding RunEnhancedButterflyTest_def Let_def
      numPairs_def [symmetric] 
    using False l1 l2 l3
    by (simp add: umod_def baseAddr_def [symmetric] rotationOffset_def [symmetric]
        np_def [symmetric] tw n' st0_def [symmetric])
  from i3 have w: "list_all (\<lambda>a. in_window startAddr wsize (access_addr a)) (accesses st)"
    by (simp add: accesses_in_window_def)
  have "unat startAddr + unat wsize \<le> 2 ^ 32 \<longrightarrow>
          list_all (\<lambda>a. unat startAddr \<le> unat (access_addr a) \<and>
                        unat (access_addr a) < unat startAddr + unat wsize) (accesses st)"
  proof
    assume nowrap: "unat startAddr + unat wsize \<le> 2 ^ 32"
    have "\<And>a. in_window startAddr wsize a \<Longrightarrow>
            unat startAddr \<le> unat a \<and> unat a < unat startAddr + unat wsize"
      by (rule in_window_interval [OF _ nowrap])
    with w show "list_all (\<lambda>a. unat startAddr \<le> unat (access_addr a) \<and>
                        unat (access_addr a) < unat startAddr + unat wsize) (accesses st)"
      unfolding list_all_iff by blast
  qed
  with R w False show ?thesis by (simp only: if_False) blast
qed

section \<open>Values written by the enhanced butterfly test\<close>

lemma store32_writes:
  "filter is_write (accesses (store32 wr a v st)) = filter is_write (accesses st) @ [Write a v]"
  by (simp add: store32_def)

lemma verify_reported_writes:
  "filter is_write (accesses (verify_reported rd a expected st)) = filter is_write (accesses st)"
  by (simp add: verify_reported_def load32_def Let_def)

lemma verify_counted_writes:
  "filter is_write (accesses (verify_counted rd a expected st)) = filter is_write (accesses st)"
  by (simp add: verify_counted_def load32_def Let_def)

lemma test_pair_writes:
  "filter is_write (accesses (test_pair wr rd cycle i p st)) =
     filter is_write (accesses st) @
       [Write (fst p) (pattern1 cycle (of_nat i)), Write (snd p) (pattern2 cycle (of_nat i)),
        Write (fst p) (pattern2 cycle (of_nat i)), Write (snd p) (pattern1 cycle (of_nat i))]"
  by (simp add: test_pair_def Let_def store32_writes verify_reported_writes
      verify_counted_writes)

lemma third_loop_writes:
  "\<exists>st'. for_each (\<lambda>i st. Inr (test_pair wr rd cycle i (pairs i) st)) [0..<n] st = Inr st' \<and>
     filter is_write (accesses st') =
       filter is_write (accesses st) @
         concat (map (\<lambda>i. [Write (fst (pairs i)) (pattern1 cycle (of_nat i)),
                            Write (snd (pairs i)) (pattern2 cycle (of_nat i)),
                            Write (fst (pairs i)) (pattern2 cycle (of_nat i)),
                            Write (snd (pairs i)) (pattern1 cycle (of_nat i))]) [0..<n])"
proof (induction n)
  case 0
  then show ?case by simp
next
  case (Suc n)
  then obtain st1 where
    st1: "for_each (\<lambda>i st. Inr (test_pair wr rd cycle i (pairs i) st)) [0..<n] st = Inr st1"
      "filter is_write (accesses st1) =
       filter is_write (accesses st) @
         concat (map (\<lambda>i. [Write (fst (pairs i)) (pattern1 cycle (of_nat i)),
                            Write (snd (pairs i)) (pattern2 cycle (of_nat i)),
                            Write (fst (pairs i)) (pattern2 cycle (of_nat i)),
                            Write (snd (pairs i)) (pattern1 cycle (of_nat i))]) [0..<n])"
    by blast
  show ?case
    by (rule exI [of _ "test_pair wr rd cycle n (pairs n) st1"])
      (simp add: for_each_append st1 test_pair_writes)
qed

lemma bindE_Inr: "bindE x f = Inr y \<Longrightarrow> \<exists>v. x = Inr v \<and> f v = Inr y"
  by (cases x) simp_all

lemma RunEnhancedButterflyTest_stages:
  assumes "RunEnhancedButterflyTest wr rd cfg cycle pairs0 startAddr wsize totalSize m = Inr st"
  shows "\<exists>pairs1 pairs2.
     for_each
       (spanning_pair startAddr wsize totalSize
          (if numButterflyPairs cfg > 32 then 32 else numButterflyPairs cfg)
          (startAddr - startAddr mod totalSize) ((cycle * 19) mod totalSize))
       [0..<unat (if numButterflyPairs cfg > 32 then 32 else numButterflyPairs cfg)] pairs0
       = Inr pairs1 \<and>
     for_each
       (power_of_two_pair startAddr wsize totalSize
          (if numButterflyPairs cfg > 32 then 32 else numButterflyPairs cfg)
          (startAddr - startAddr mod totalSize) ((cycle * 19) mod totalSize))
       (takeWhile
          (\<lambda>i. i + unat (if numButterflyPairs cfg > 32 then 32 else numButterflyPairs cfg) < 32)
          [0..<5]) pairs1
       = Inr pairs2 \<and>
     for_each (\<lambda>i st. Inr (test_pair wr rd cycle i (pairs2 i) st))
       [0..<unat (if (if numButterflyPairs cfg > 32 then 32 else numButterflyPairs cfg) + 5 \<le> 32
                  then (if numButterflyPairs cfg > 32 then 32 else numButterflyPairs cfg) + 5
                  else 32)]
       \<lparr> mem = m, accesses = [], errors = 0, uart_out = [] \<rparr> = Inr st"
proof -
  define numPairs where
    "numPairs = (if numButterflyPairs cfg > 32 then 32 else numButterflyPairs cfg)"
  have t: "totalSize \<noteq> 0"
    using assms by (auto simp add: RunEnhancedButterflyTest_def umod_def)
  from assms t have
    "bindE (for_each
              (spanning_pair startAddr wsize totalSize numPairs
                 (startAddr - startAddr mod totalSize) ((cycle * 19) mod totalSize))
              [0..<unat numPairs] pairs0) (\<lambda>pairs1.
     bindE (for_each
              (power_of_two_pair startAddr wsize totalSize numPairs
                 (startAddr - startAddr mod totalSize) ((cycle * 19) mod totalSize))
              (takeWhile (\<lambda>i. i + unat numPairs < 32) [0..<5]) pairs1) (\<lambda>pairs2.
     for_each (\<lambda>i st. Inr (test_pair wr rd cycle i (pairs2 i) st))
       [0..<unat (if numPairs + 5 \<le> 32 then numPairs + 5 else 32)]
       \<lparr> mem = m, accesses = [], errors = 0, uart_out = [] \<rparr>)) = Inr st"
    unfolding RunEnhancedButterflyTest_def Let_def numPairs_def [symmetric]
    by (simp add: umod_def)
  then obtain pairs1 where
    p1: "for_each
              (spanning_pair startAddr wsize totalSize numPairs
                 (startAddr - startAddr mod totalSize) ((cycle * 19) mod totalSize))
              [0..<unat numPairs] pairs0 = Inr pairs1"
    and r1: "bindE (for_each
              (power_of_two_pair startAddr wsize totalSize numPairs
                 (startAddr - startAddr mod totalSize) ((cycle * 19) mod totalSize))
              (takeWhile (\<lambda>i. i + unat numPairs < 32) [0..<5]) pairs1) (\<lambda>pairs2.
     for_each (\<lambda>i st. Inr (test_pair wr rd cycle i (pairs2 i) st))
       [0..<unat (if numPairs + 5 \<le> 32 then numPairs + 5 else 32)]
       \<lparr> mem = m, accesses = [], errors = 0, uart_out = [] \<rparr>) = Inr st"
    by (blast dest: bindE_Inr)
  from r1 obtain pairs2 where
    p2: "for_each
              (power_of_two_pair startAddr wsize totalSize numPairs
                 (startAddr - startAddr mod totalSize) ((cycle * 19) mod totalSize))
              (takeWhile (\<lambda>i. i + unat numPairs < 32) [0..<5]) pairs1 = Inr pairs2"
    and p3: "for_each (\<lambda>i st. Inr (test_pair wr rd cycle i (pairs2 i) st))
       [0..<unat (if numPairs + 5 \<le> 32 then numPairs + 5 else 32)]
       \<lparr> mem = m, accesses = [], errors = 0, uart_out = [] \<rparr> = Inr st"
    by (blast dest: bindE_Inr)
  from p1 p2 p3 show ?thesis
    unfolding numPairs_def by blast
qed

lemma RunEnhancedButterflyTest_writes:
  assumes "RunEnhancedButterflyTest wr rd cfg cycle pairs0 startAddr wsize totalSize m = Inr st"
  shows "\<exists>pairs n. filter is_write (accesses st) =
           concat (map (\<lambda>i. [Write (fst (pairs i)) (pattern1 cycle (of_nat i)),
                              Write (snd (pairs i)) (pattern2 cycle (of_nat i)),
                              Write (fst (pairs i)) (pattern2 cycle (of_nat i)),
                              Write (snd (pairs i)) (pattern1 cycle (of_nat i))]) [0..<n])"
proof -
  from RunEnhancedButterflyTest_stages [OF assms] obtain pairs2 n where
    l3: "for_each (\<lambda>i st. Inr (test_pair wr rd cycle i (pairs2 i) st)) [0..<n]
       \<lparr> mem = m, accesses = [], errors = 0, uart_out = [] \<rparr> = Inr st"
    by blast
  from third_loop_writes [of wr rd cycle pairs2 n
      "\<lparr> mem = m, accesses = [], errors = 0, uart_out = [] \<rparr>"] l3
  show ?thesis by (intro exI [of _ pairs2] exI [of _ n]) auto
qed

text \<open>
  Claim C9.  For every pair index \<open>i\<close>, every cycle counter value, every pair of
  addresses \<open>p\<close> and whatever the memory does, the stores of the test of pair \<open>i\<close> are
  four, in this order: the value \<open>v = 0xAAAAAAAA XOR i * 0x11111111 XOR cycle\<close> to the
  first address and its bitwise complement \<open>NOT v\<close> to the second, then, after the
  swap, \<open>NOT v\<close> to the first address and \<open>v\<close> to the second.  The stores of a whole run
  of the enhanced butterfly test that returns are these four for each pair in turn.
\<close>

theorem butterfly_pair_writes_complementary:
  "filter is_write (accesses (test_pair wr rd cycle i p st)) =
     filter is_write (accesses st) @
       [Write (fst p) (pattern1 cycle (of_nat i)),
        Write (snd p) (NOT (pattern1 cycle (of_nat i))),
        Write (fst p) (NOT (pattern1 cycle (of_nat i))),
        Write (snd p) (pattern1 cycle (of_nat i))] \<and>
   (RunEnhancedButterflyTest wr rd cfg cycle pairs0 startAddr wsize totalSize m = Inr st' \<longrightarrow>
      (\<exists>pairs n. filter is_write (accesses st') =
         concat (map (\<lambda>i. [Write (fst (pairs i)) (pattern1 cycle (of_nat i)),
                            Write (snd (pairs i)) (NOT (pattern1 cycle (of_nat i))),
                            Write (fst (pairs i)) (NOT (pattern1 cycle (of_nat i))),
                            Write (snd (pairs i)) (pattern1 cycle (of_nat i))]) [0..<n])))"
proof (intro conjI impI)
  show "filter is_write (accesses (test_pair wr rd cycle i p st)) =
     filter is_write (accesses st) @
       [Write (fst p) (pattern1 cycle (of_nat i)),
        Write (snd p) (NOT (pattern1 cycle (of_nat i))),
        Write (fst p) (NOT (pattern1 cycle (of_nat i))),
        Write (snd p) (pattern1 cycle (of_nat i))]"
    by (simp only: test_pair_writes pattern2_complement)
next
  assume "RunEnhancedButterflyTest wr rd cfg cycle pairs0 startAddr wsize totalSize m = Inr st'"
  from RunEnhancedButterflyTest_writes [OF this]
  show "\<exists>pairs n. filter is_write (accesses st') =
         concat (map (\<lambda>i. [Write (fst (pairs i)) (pattern1 cycle (of_nat i)),
                            Write (snd (pairs i)) (NOT (pattern1 cycle (of_nat i))),
                            Write (fst (pairs i)) (NOT (pattern1 cycle (of_nat i))),
                            Write (snd (pairs i)) (pattern1 cycle (of_nat i))]) [0..<n])"
    by (simp only: pattern2_complement)
qed

theorem butterfly_pair_writes_complementary_witness:
  "\<exists>st pairs n.
     RunEnhancedButterflyTest ideal_write ideal_read InitializeDefaultConfig 1 blank_pairs
        0x20018400 0x2000 0x8000 blank_memory = Inr st \<and>
     filter is_write (accesses st) =
       concat (map (\<lambda>i. [Write (fst (pairs i)) (pattern1 1 (of_nat i)),
                          Write (snd (pairs i)) (NOT (pattern1 1 (of_nat i))),
                          Write (fst (pairs i)) (NOT (pattern1 1 (of_nat i))),
                          Write (snd (pairs i)) (pattern1 1 (of_nat i))]) [0..<n])"
proof -
  have w: "(0x2000::u32) \<noteq> 0" and t: "(0x8000::u32) \<noteq> 0" by simp_all
  from RunEnhancedButterflyTest_operand_addresses [OF w, where totalSize = "0x8000"
      and wr = ideal_write and rd = ideal_read and cfg = InitializeDefaultConfig
      and cycle = 1 and ?pairs0.0 = blank_pairs and startAddr = "0x20018400"
      and m = blank_memory]
  obtain st where
    R: "RunEnhancedButterflyTest ideal_write ideal_read InitializeDefaultConfig 1 blank_pairs
          0x20018400 0x2000 0x8000 blank_memory = Inr st"
    using t by (simp only: if_False) blast
  from butterfly_pair_writes_complementary [THEN conjunct2, THEN mp, OF R] R
  show ?thesis by blast
qed

section \<open>Bytes covered by the accesses of the enhanced butterfly test\<close>

lemma failing_input_constants:
  "(3934 * 19) mod (0x8000::u32) = 0x23FA"
  "(0x20018400::u32) - 0x20018400 mod 0x8000 = 0x20018000"
  "(if numButterflyPairs InitializeDefaultConfig > 32 then 32
    else numButterflyPairs InitializeDefaultConfig) = 16"
  "unat (16::u32) = 16"
  "unat (if (16::u32) + 5 \<le> 32 then 16 + 5 else (32::u32)) = 21"
  by (simp_all add: InitializeDefaultConfig_def)

lemma failing_input_pair:
  "power_of_two_pair 0x20018400 0x2000 0x8000 16 0x20018000 0x23FA 0 pairs
     = Inr (pairs(16 := (0x2001A3FA, 0x2001A3FE)))"
  by (simp add: power_of_two_pair_def Let_def umod_def map_into_window_def)

lemma failing_input_second_loop:
  assumes "for_each (power_of_two_pair 0x20018400 0x2000 0x8000 16 0x20018000 0x23FA)
             [0..<5] pairs1 = Inr pairs2"
  shows "pairs2 16 = (0x2001A3FA, 0x2001A3FE)"
proof -
  have "\<exists>s'. for_each (power_of_two_pair 0x20018400 0x2000 0x8000 16 0x20018000 0x23FA)
             [0..<5] pairs1 = Inr s' \<and> (0 < (5::nat) \<longrightarrow> s' 16 = (0x2001A3FA, 0x2001A3FE))"
  proof (rule for_each_upt [where I = "\<lambda>i pairs. 0 < i \<longrightarrow> pairs 16 = (0x2001A3FA, 0x2001A3FE)"])
    show "0 < (0::nat) \<longrightarrow> pairs1 16 = (0x2001A3FA, 0x2001A3FE)" by simp
  next
    fix i :: nat and pairs :: "nat \<Rightarrow> u32 \<times> u32"
    assume I: "0 < i \<longrightarrow> pairs 16 = (0x2001A3FA, 0x2001A3FE)"
    show "\<exists>s'. power_of_two_pair 0x20018400 0x2000 0x8000 16 0x20018000 0x23FA i pairs = Inr s' \<and>
            (0 < Suc i \<longrightarrow> s' 16 = (0x2001A3FA, 0x2001A3FE))"
    proof (cases "i = 0")
      case True
      then show ?thesis by (simp add: failing_input_pair)
    next
      case False
      have w: "(0x2000::u32) \<noteq> 0" and t: "(0x8000::u32) \<noteq> 0" by simp_all
      from power_of_two_pair_ok [OF w t, of "0x20018400" 16 "0x20018000" "0x23FA" i pairs]
      obtain a0 a1 where
        "power_of_two_pair 0x20018400 0x2000 0x8000 16 0x20018000 0x23FA i pairs
           = Inr (pairs(16 + i := (a0, a1)))"
        by (auto simp add: failing_input_constants)
      with False I show ?thesis by simp
    qed
  qed
  with assms show ?thesis by simp
qed

lemma third_loop_store:
  assumes "for_each (\<lambda>i st. Inr (test_pair wr rd cycle i (pairs i) st)) [0..<n] st = Inr st'"
    and "j < n"
  shows "Write (snd (pairs j)) (pattern2 cycle (of_nat j)) \<in> set (accesses st')"
proof -
  from third_loop_writes [of wr rd cycle pairs n st] assms(1) have
    "filter is_write (accesses st') =
       filter is_write (accesses st) @
         concat (map (\<lambda>i. [Write (fst (pairs i)) (pattern1 cycle (of_nat i)),
                            Write (snd (pairs i)) (pattern2 cycle (of_nat i)),
                            Write (fst (pairs i)) (pattern2 cycle (of_nat i)),
                            Write (snd (pairs i)) (pattern1 cycle (of_nat i))]) [0..<n])"
    by simp
  with assms(2) have
    "Write (snd (pairs j)) (pattern2 cycle (of_nat j)) \<in> set (filter is_write (accesses st'))"
    by auto
  then show ?thesis by simp
qed

lemma failing_input_window:
  "access_bytes (Write 0x2001A3FE v) = [0x2001A3FE, 0x2001A3FF, 0x2001A400, 0x2001A401]"
  "in_window 0x20018400 0x2000 0x2001A3FE"
  "in_window 0x20018400 0x2000 0x2001A3FF"
  "\<not> in_window 0x20018400 0x2000 0x2001A400"
  "\<not> in_window 0x20018400 0x2000 0x2001A401"
  by (simp_all add: access_bytes_def in_window_def)

text \<open>
  Claim C10 fails at the level of the bytes accessed.  Take the call
  \<open>RunEnhancedButterflyTest(0x20018400, 0x2000, 0x8000)\<close> with the cycle counter at 3934
  and the default 16 pairs, whatever the memory does and the pair array holds at entry.
  The window is the bytes from \<open>0x20018400\<close> up to, and not including, \<open>0x2001A400\<close>.
  The call returns, and among its accesses is a 32-bit store at \<open>0x2001A3FE\<close>, the
  second address of pair 16, which the second loop computes inside the window and
  does not remap.  The store covers the bytes \<open>0x2001A3FE\<close> to \<open>0x2001A401\<close>: its
  last two bytes are outside the window.
\<close>

theorem butterfly_store_crosses_window_end:
  "map_sum id (\<lambda>st. Write 0x2001A3FE (pattern2 3934 16) \<in> set (accesses st))
     (RunEnhancedButterflyTest wr rd InitializeDefaultConfig 3934 pairs0
        0x20018400 0x2000 0x8000 m) = Inr True \<and>
   access_bytes (Write 0x2001A3FE (pattern2 3934 16))
     = [0x2001A3FE, 0x2001A3FF, 0x2001A400, 0x2001A401] \<and>
   in_window 0x20018400 0x2000 0x2001A3FE \<and>
   in_window 0x20018400 0x2000 0x2001A3FF \<and>
   \<not> in_window 0x20018400 0x2000 0x2001A400 \<and>
   \<not> in_window 0x20018400 0x2000 0x2001A401 \<and>
   map_sum id (bytes_in_window 0x20018400 0x2000)
     (RunEnhancedButterflyTest wr rd InitializeDefaultConfig 3934 pairs0
        0x20018400 0x2000 0x8000 m) = Inr False"
proof -
  have w: "(0x2000::u32) \<noteq> 0" and t: "(0x8000::u32) \<noteq> 0" by simp_all
  from RunEnhancedButterflyTest_operand_addresses [OF w, where totalSize = "0x8000"
      and wr = wr and rd = rd and cfg = InitializeDefaultConfig and cycle = 3934
      and ?pairs0.0 = pairs0 and startAddr = "0x20018400" and m = m]
  obtain st where
    R: "RunEnhancedButterflyTest wr rd InitializeDefaultConfig 3934 pairs0
          0x20018400 0x2000 0x8000 m = Inr st"
    using t by (simp only: if_False) blast
  have tw: "takeWhile (\<lambda>i. i + 16 < 32) [0..<5] = [0..<5]"
    using takeWhile_upt_bound [of 16 32 5] by simp
  from RunEnhancedButterflyTest_stages [OF R] obtain pairs1 pairs2 where
    l2: "for_each (power_of_two_pair 0x20018400 0x2000 0x8000 16 0x20018000 0x23FA)
           [0..<5] pairs1 = Inr pairs2"
    and l3: "for_each (\<lambda>i st. Inr (test_pair wr rd 3934 i (pairs2 i) st)) [0..<21]
           \<lparr> mem = m, accesses = [], errors = 0, uart_out = [] \<rparr> = Inr st"
    unfolding failing_input_constants tw by blast
  have p: "pairs2 16 = (0x2001A3FA, 0x2001A3FE)"
    by (rule failing_input_second_loop [OF l2])
  from third_loop_store [OF l3, of 16] p have
    a: "Write 0x2001A3FE (pattern2 3934 16) \<in> set (accesses st)"
    by simp
  have "\<not> list_all (in_window 0x20018400 0x2000)
              (access_bytes (Write 0x2001A3FE (pattern2 3934 16)))"
    by (simp add: failing_input_window)
  with a have b: "\<not> bytes_in_window 0x20018400 0x2000 st"
    unfolding bytes_in_window_def list_all_iff by blast
  from a b show ?thesis
    by (simp only: R failing_input_window map_sum.simps id_apply simp_thms)
qed

end
